theory Spec2Isabelle
  imports Main "HOL-Library.Char_ord" "HOL-Library.List_Lexorder" "HOL-Library.Multiset"
begin

section \<open>Documents\<close>

text \<open>
  The three Mongoose schemas of \<^verbatim>\<open>models/\<close>. An ObjectId is modelled by its string form
  (type \<open>oid\<close>); a string that arrives in a request becomes an ObjectId only through the
  driver's cast, which can fail. A JavaScript \<^verbatim>\<open>Date\<close> is its time value in milliseconds.
  A string is a list of code units below 256.

  A path of a document that need not hold a value is \<open>Missing\<close> (\<^verbatim>\<open>undefined\<close>), \<open>Null\<close>
  or a value. A path that refers to another document holds \<open>None\<close> when the document has
  no ObjectId there, as after a cast that failed. Every stored document has its \<^verbatim>\<open>_id\<close> and
  its string paths.
\<close>

type_synonym oid = string
type_synonym date = int

datatype 'a path = Missing | Null | Val 'a

record Author =
  author_id :: oid
  first_name :: string
  family_name :: string
  date_of_birth :: "date path"
  date_of_death :: "date path"

record Book =
  book_id :: oid
  title :: string
  author :: "oid option"
  summary :: string
  isbn :: string
  genre :: "oid list"

record BookInstance =
  bookinstance_id :: oid
  book :: "oid option"
  imprint :: string
  status :: string
  due_back :: "date path"

text \<open>
  Modelled from the spec: the Genre model (\<^verbatim>\<open>models/Genre.js\<close>) is not among the sources;
  section 3 of the specification gives it an \<^verbatim>\<open>id\<close> and a \<^verbatim>\<open>name\<close>.
\<close>

record Genre =
  genre_id :: oid
  genre_name :: string

subsection \<open>Virtuals\<close>

definition Author_name :: "Author \<Rightarrow> string" where
  "Author_name a =
     (if first_name a \<noteq> [] \<and> family_name a \<noteq> []
      then first_name a @ '' '' @ family_name a else [])"

definition Author_url :: "Author \<Rightarrow> string" where
  "Author_url a = ''/catalog/author/'' @ author_id a"

definition Book_url :: "Book \<Rightarrow> string" where
  "Book_url b = ''/catalog/book/'' @ book_id b"

definition BookInstance_url :: "BookInstance \<Rightarrow> string" where
  "BookInstance_url i = ''/catalog/bookinstance/'' @ bookinstance_id i"

section \<open>The environment\<close>

text \<open>
  What the handlers take from libraries that are not among the sources, as parameters:
  the recogniser of ISO 8601 strings and the conversion of a string to a date of the
  validation library (the conversion answers \<^verbatim>\<open>null\<close>, here \<open>None\<close>, for a string the engine
  cannot parse); the driver's cast of a string to an ObjectId (\<open>None\<close> when the driver
  refuses the string); and the value \<^verbatim>\<open>Date.now()\<close> had when the BookInstance schema was
  defined.
\<close>

record env =
  isISO8601 :: "string \<Rightarrow> bool"
  toDate :: "string \<Rightarrow> date option"
  castObjectId :: "string \<Rightarrow> oid option"
  Date_now_at_load :: date

section \<open>The document store\<close>

text \<open>
  One collection per model, in natural (insertion) order. The operations are those the
  controllers call on a Mongoose model. An operation that takes an identifier casts it
  first and is rejected with a cast error when the cast fails; the handlers are wrapped in
  \<^verbatim>\<open>asyncHandler\<close>, which hands a rejection to \<^verbatim>\<open>next\<close>.
\<close>

record store =
  authors :: "Author list"
  books :: "Book list"
  bookinstances :: "BookInstance list"
  genres :: "Genre list"

datatype error =
    StatusError nat string
  | TypeError string
  | CastError string
  | ValidationError string
  | DuplicateKeyError

definition findOne :: "('a \<Rightarrow> bool) \<Rightarrow> 'a list \<Rightarrow> 'a option" where
  "findOne p xs = List.find p xs"

definition findById :: "env \<Rightarrow> ('a \<Rightarrow> oid) \<Rightarrow> string \<Rightarrow> 'a list \<Rightarrow> error + 'a option" where
  "findById e idf i xs =
     (case castObjectId e i of
        None \<Rightarrow> Inl (CastError i)
      | Some k \<Rightarrow> Inr (findOne (\<lambda>d. idf d = k) xs))"

text \<open>\<^verbatim>\<open>Model.find({path: id})\<close> on a path that refers to another document.\<close>

definition findByRef ::
  "env \<Rightarrow> ('a \<Rightarrow> oid option) \<Rightarrow> string \<Rightarrow> 'a list \<Rightarrow> error + 'a list" where
  "findByRef e ref i xs =
     (case castObjectId e i of
        None \<Rightarrow> Inl (CastError i)
      | Some k \<Rightarrow> Inr (filter (\<lambda>d. ref d = Some k) xs))"

fun removeOne :: "('a \<Rightarrow> bool) \<Rightarrow> 'a list \<Rightarrow> 'a list" where
  "removeOne p [] = []"
| "removeOne p (x # xs) = (if p x then xs else x # removeOne p xs)"

definition findByIdAndRemove ::
  "env \<Rightarrow> ('a \<Rightarrow> oid) \<Rightarrow> string \<Rightarrow> 'a list \<Rightarrow> error + 'a list" where
  "findByIdAndRemove e idf i xs =
     (case castObjectId e i of
        None \<Rightarrow> Inl (CastError i)
      | Some k \<Rightarrow> Inr (removeOne (\<lambda>d. idf d = k) xs))"

fun replaceOne :: "('a \<Rightarrow> bool) \<Rightarrow> 'a \<Rightarrow> 'a list \<Rightarrow> 'a list" where
  "replaceOne p y [] = []"
| "replaceOne p y (x # xs) = (if p x then y # xs else x # replaceOne p y xs)"

text \<open>
  \<^verbatim>\<open>findByIdAndUpdate(id, doc)\<close> answers the document as it was before the update, or
  \<^verbatim>\<open>null\<close> when no document has the identifier; then the collection is left as it is.
  On a document that is found the update sets the paths that \<open>doc\<close> defines and leaves the
  others as they are stored: \<open>upd old doc\<close> is the stored document afterwards. No validator
  of the schema runs.
\<close>

definition findByIdAndUpdate ::
  "env \<Rightarrow> ('a \<Rightarrow> oid) \<Rightarrow> ('a \<Rightarrow> 'a \<Rightarrow> 'a) \<Rightarrow> string \<Rightarrow> 'a \<Rightarrow> 'a list \<Rightarrow>
     error + ('a option \<times> 'a list)" where
  "findByIdAndUpdate e idf upd i doc xs =
     (case castObjectId e i of
        None \<Rightarrow> Inl (CastError i)
      | Some k \<Rightarrow>
          (case findOne (\<lambda>d. idf d = k) xs of
             None \<Rightarrow> Inr (None, xs)
           | Some old \<Rightarrow> Inr (Some old, replaceOne (\<lambda>d. idf d = k) (upd old doc) xs)))"

definition set_path :: "'a path \<Rightarrow> 'a path \<Rightarrow> 'a path" where
  "set_path new old = (case new of Missing \<Rightarrow> old | _ \<Rightarrow> new)"

definition set_ref :: "oid option \<Rightarrow> oid option \<Rightarrow> oid option" where
  "set_ref new old = (case new of None \<Rightarrow> old | Some k \<Rightarrow> Some k)"

definition Author_update :: "Author \<Rightarrow> Author \<Rightarrow> Author" where
  "Author_update old doc =
     old\<lparr>first_name := first_name doc, family_name := family_name doc,
         date_of_birth := set_path (date_of_birth doc) (date_of_birth old),
         date_of_death := set_path (date_of_death doc) (date_of_death old)\<rparr>"

definition Book_update :: "Book \<Rightarrow> Book \<Rightarrow> Book" where
  "Book_update old doc =
     old\<lparr>title := title doc, author := set_ref (author doc) (author old),
         summary := summary doc, isbn := isbn doc, genre := genre doc\<rparr>"

definition BookInstance_update :: "BookInstance \<Rightarrow> BookInstance \<Rightarrow> BookInstance" where
  "BookInstance_update old doc =
     old\<lparr>book := set_ref (book doc) (book old), imprint := imprint doc,
         status := status doc, due_back := set_path (due_back doc) (due_back old)\<rparr>"

text \<open>
  \<^verbatim>\<open>doc.save()\<close> of a new document: the validation of the schema runs first (a path whose
  cast failed, \<^verbatim>\<open>required\<close>, \<^verbatim>\<open>maxLength\<close>, \<^verbatim>\<open>enum\<close>), then the insert, which the unique
  index on \<^verbatim>\<open>_id\<close> refuses for an identifier already present.
\<close>

definition save :: "('a \<Rightarrow> bool) \<Rightarrow> ('a \<Rightarrow> oid) \<Rightarrow> 'a \<Rightarrow> 'a list \<Rightarrow> error + 'a list" where
  "save valid idf doc xs =
     (if \<not> valid doc then Inl (ValidationError ''validation failed'')
      else if findOne (\<lambda>d. idf d = idf doc) xs \<noteq> None then Inl DuplicateKeyError
      else Inr (xs @ [doc]))"

definition Author_validate :: "Author \<Rightarrow> bool" where
  "Author_validate a =
     (first_name a \<noteq> [] \<and> length (first_name a) \<le> 100 \<and>
      family_name a \<noteq> [] \<and> length (family_name a) \<le> 100)"

definition Book_validate :: "Book \<Rightarrow> bool" where
  "Book_validate b =
     (title b \<noteq> [] \<and> author b \<noteq> None \<and> summary b \<noteq> [] \<and> isbn b \<noteq> [])"

definition BookInstance_validate :: "BookInstance \<Rightarrow> bool" where
  "BookInstance_validate i =
     (book i \<noteq> None \<and> imprint i \<noteq> [] \<and> status i \<noteq> [] \<and>
      status i \<in> set [''Available'', ''Maintenance'', ''Loaned'', ''Reserved''])"

text \<open>
  A default of a schema is applied to a path that is \<^verbatim>\<open>undefined\<close>, when a document is
  built and when a stored document is read.
\<close>

definition with_default :: "'a \<Rightarrow> 'a path \<Rightarrow> 'a path" where
  "with_default d p = (case p of Missing \<Rightarrow> Val d | _ \<Rightarrow> p)"

definition BookInstance_hydrate :: "env \<Rightarrow> BookInstance \<Rightarrow> BookInstance" where
  "BookInstance_hydrate e i = i\<lparr>due_back := with_default (Date_now_at_load e) (due_back i)\<rparr>"

section \<open>Requests and responses\<close>

text \<open>
  A request carries the path parameter \<^verbatim>\<open>req.params.id\<close> and the form body. A scalar form
  field is a string or absent (section 4.1 of the specification); the \<^verbatim>\<open>genre\<close> field of the
  book forms can also arrive as an array and has a path of its own.
\<close>

datatype raw_genre = GenreUndefined | GenreScalar string | GenreArray "string list"

record request =
  params_id :: string
  body :: "string \<rightharpoonup> string"
  body_genre :: raw_genre

record verror =
  err_path :: string
  err_msg :: string
  err_value :: string

datatype locals =
    author_list_locals string "Author list"
  | author_detail_locals string Author "(oid \<times> string \<times> string) list"
  | author_form_locals string Author "verror list"
  | author_delete_locals string "Author option" "(oid \<times> string \<times> string) list"
  | bookinstance_list_locals string "(BookInstance \<times> Book option) list"
  | bookinstance_detail_locals string "BookInstance \<times> Book option"
  | bookinstance_form_locals string "(oid \<times> string) list" oid BookInstance "verror list"
  | book_list_locals string "(oid \<times> string \<times> Author option) list"
  | book_detail_locals string Book "Author option" "Genre list" "BookInstance list"
  | book_form_locals string "Author list" "(Genre \<times> bool) list" Book "verror list"
  | book_delete_locals string "Book option" "BookInstance list"

text \<open>
  The calls a handler makes, in order: \<^verbatim>\<open>res.render\<close>, \<^verbatim>\<open>res.redirect\<close>, or an error
  handed to \<^verbatim>\<open>next\<close> (by the handler itself, or by \<^verbatim>\<open>asyncHandler\<close> when the handler
  throws or a query is rejected). Where a handler calls the response a second time the
  list has both calls; what the framework does with a call on a response already sent is
  not part of it.
\<close>

datatype response = Render string locals | Redirect string | Next error

section \<open>Validation and sanitization\<close>

text \<open>
  The sanitizers and validators of the validation library that the chains use.
\<close>

definition toString :: "string option \<Rightarrow> string" where
  "toString v = (case v of None \<Rightarrow> [] | Some s \<Rightarrow> s)"

definition is_space :: "char \<Rightarrow> bool" where
  "is_space c = (c \<in> set [CHR 0x09, CHR 0x0A, CHR 0x0B, CHR 0x0C, CHR 0x0D, CHR 0x20, CHR 0xA0])"

definition trim :: "string \<Rightarrow> string" where
  "trim s = rev (dropWhile is_space (rev (dropWhile is_space s)))"

fun escape_char :: "char \<Rightarrow> string" where
  "escape_char c =
     (if c = CHR ''&'' then ''&amp;''
      else if c = CHR 0x22 then ''&quot;''
      else if c = CHR 0x27 then ''&#x27;''
      else if c = CHR ''<'' then ''&lt;''
      else if c = CHR ''>'' then ''&gt;''
      else if c = CHR ''/'' then ''&#x2F;''
      else if c = CHR 0x5C then ''&#x5C;''
      else if c = CHR 0x60 then ''&#96;''
      else [c])"

definition escape :: "string \<Rightarrow> string" where
  "escape s = concat (map escape_char s)"

definition isLength :: "nat \<Rightarrow> nat option \<Rightarrow> string \<Rightarrow> bool" where
  "isLength mn mx s =
     (mn \<le> length s \<and> (case mx of None \<Rightarrow> True | Some m \<Rightarrow> length s \<le> m))"

definition alnum :: "char \<Rightarrow> bool" where
  "alnum c =
     (c \<in> set ''0123456789ABCDEFGHIJKLMNOPQRSTUVWXYZabcdefghijklmnopqrstuvwxyz'')"

definition isAlphanumeric :: "string \<Rightarrow> bool" where
  "isAlphanumeric s = (s \<noteq> [] \<and> list_all alnum s)"

definition check :: "bool \<Rightarrow> string \<Rightarrow> string \<Rightarrow> string \<Rightarrow> verror list" where
  "check ok path msg v =
     (if ok then [] else [\<lparr>err_path = path, err_msg = msg, err_value = v\<rparr>])"

text \<open>
  \<^verbatim>\<open>body(f).trim().isLength({min: 1, max: 100}).escape().withMessage(m1)
  .isAlphanumeric().withMessage(m2)\<close>: every step runs, a sanitizer replaces the value,
  a validator that fails adds one error. An absent field is read as the empty string.
\<close>

definition name_chain ::
  "string \<Rightarrow> string \<Rightarrow> string \<Rightarrow> (string \<rightharpoonup> string) \<Rightarrow> string \<times> verror list" where
  "name_chain f m1 m2 b =
     (let v1 = trim (toString (b f));
          e1 = check (isLength 1 (Some 100) v1) f m1 v1;
          v2 = escape v1;
          e2 = check (isAlphanumeric v2) f m2 v2
      in (v2, e1 @ e2))"

text \<open>\<^verbatim>\<open>body(f, m).trim().isLength({min: 1}).escape()\<close>\<close>

definition text_chain ::
  "string \<Rightarrow> string \<Rightarrow> (string \<rightharpoonup> string) \<Rightarrow> string \<times> verror list" where
  "text_chain f m b =
     (let v1 = trim (toString (b f));
          e1 = check (isLength 1 None v1) f m v1
      in (escape v1, e1))"

text \<open>\<^verbatim>\<open>body(f, m).trim().isLength({min: 1})\<close>\<close>

definition id_chain ::
  "string \<Rightarrow> string \<Rightarrow> (string \<rightharpoonup> string) \<Rightarrow> string \<times> verror list" where
  "id_chain f m b =
     (let v1 = trim (toString (b f))
      in (v1, check (isLength 1 None v1) f m v1))"

text \<open>
  \<^verbatim>\<open>body(f, m).optional({values: "falsy"}).isISO8601().toDate()\<close>. A falsy value (the
  field is absent, or the empty string) skips the validator and the sanitizer, and the
  body keeps what it had. Otherwise both run: the validator may add an error, and the
  sanitizer replaces the value by a date or by \<^verbatim>\<open>null\<close>.
\<close>

datatype date_value = Absent | EmptyString | NullDate | ADate date

definition date_chain ::
  "env \<Rightarrow> string \<Rightarrow> string \<Rightarrow> (string \<rightharpoonup> string) \<Rightarrow> date_value \<times> verror list" where
  "date_chain e f m b =
     (case b f of
        None \<Rightarrow> (Absent, [])
      | Some s \<Rightarrow>
          if s = [] then (EmptyString, [])
          else ((case toDate e s of None \<Rightarrow> NullDate | Some d \<Rightarrow> ADate d),
                check (isISO8601 e s) f m s))"

text \<open>
  The cast of a date path when a document is built: the empty string and \<^verbatim>\<open>null\<close> give
  \<^verbatim>\<open>null\<close>, an absent value leaves the path \<^verbatim>\<open>undefined\<close>.
\<close>

definition cast_date :: "date_value \<Rightarrow> date path" where
  "cast_date v =
     (case v of Absent \<Rightarrow> Missing | EmptyString \<Rightarrow> Null | NullDate \<Rightarrow> Null | ADate d \<Rightarrow> Val d)"

text \<open>
  The \<^verbatim>\<open>_id\<close> of a document built with \<^verbatim>\<open>_id: req.params.id\<close>: the cast of that string, or,
  when the cast fails, the identifier the constructor had generated (\<open>fresh\<close>).
\<close>

definition cast_id :: "env \<Rightarrow> oid \<Rightarrow> string \<Rightarrow> oid" where
  "cast_id e fresh i = (case castObjectId e i of None \<Rightarrow> fresh | Some k \<Rightarrow> k)"

section \<open>Author controller\<close>

definition new_Author :: "oid \<Rightarrow> string \<Rightarrow> string \<Rightarrow> date_value \<Rightarrow> date_value \<Rightarrow> Author" where
  "new_Author i fn ln dob dod =
     \<lparr>author_id = i, first_name = fn, family_name = ln,
      date_of_birth = cast_date dob, date_of_death = cast_date dod\<rparr>"

text \<open>The projection \<^verbatim>\<open>"title summary"\<close> of \<^verbatim>\<open>Book.find({author: id}, "title summary")\<close>.\<close>

definition title_summary :: "Book \<Rightarrow> oid \<times> string \<times> string" where
  "title_summary b = (book_id b, title b, summary b)"

definition allBooksByAuthor ::
  "env \<Rightarrow> string \<Rightarrow> store \<Rightarrow> error + (oid \<times> string \<times> string) list" where
  "allBooksByAuthor e i st =
     (case findByRef e author i (books st) of
        Inl err \<Rightarrow> Inl err
      | Inr bs \<Rightarrow> Inr (map title_summary bs))"

definition author_list :: "store \<Rightarrow> store \<times> response list" where
  "author_list st =
     (let allAuthors = sort_key first_name (authors st)
      in (st, [Render ''author_list'' (author_list_locals ''Author List'' allAuthors)]))"

definition author_detail :: "env \<Rightarrow> request \<Rightarrow> store \<Rightarrow> store \<times> response list" where
  "author_detail e req st =
     (case findById e author_id (params_id req) (authors st) of
        Inl err \<Rightarrow> (st, [Next err])
      | Inr a \<Rightarrow>
          (case allBooksByAuthor e (params_id req) st of
             Inl err \<Rightarrow> (st, [Next err])
           | Inr bs \<Rightarrow>
               (case a of
                  None \<Rightarrow> (st, [Next (StatusError 404 ''Author not found'')])
                | Some au \<Rightarrow>
                    (st, [Render ''author_detail''
                            (author_detail_locals ''Author Detail'' au bs)]))))"

text \<open>
  The four chains of \<^verbatim>\<open>author_create_post\<close> and \<^verbatim>\<open>author_update_post\<close> (the same in both),
  with the errors in the order of the middlewares.
\<close>

definition author_chains ::
  "env \<Rightarrow> request \<Rightarrow> string \<times> string \<times> date_value \<times> date_value \<times> verror list" where
  "author_chains e req =
     (let (fn, e1) = name_chain ''first_name'' ''First name must be specified.''
                       ''First name has non-alphanumeric characters.'' (body req);
          (ln, e2) = name_chain ''family_name'' ''Family name must be specified.''
                       ''Family name has non-alphanumeric characters.'' (body req);
          (dob, e3) = date_chain e ''date_of_birth'' ''Invalid value'' (body req);
          (dod, e4) = date_chain e ''date_of_death'' ''Invalid value'' (body req)
      in (fn, ln, dob, dod, e1 @ e2 @ e3 @ e4))"

definition author_create_post :: "env \<Rightarrow> oid \<Rightarrow> request \<Rightarrow> store \<Rightarrow> store \<times> response list" where
  "author_create_post e fresh req st =
     (let (fn, ln, dob, dod, errors) = author_chains e req;
          a = new_Author fresh fn ln dob dod
      in if errors \<noteq> [] then
           (st, [Render ''author_form'' (author_form_locals ''Create Author'' a errors)])
         else
           (case findOne (\<lambda>d. first_name d = fn \<and> family_name d = ln) (authors st) of
              Some authorExists \<Rightarrow> (st, [Redirect (Author_url authorExists)])
            | None \<Rightarrow>
                (case save Author_validate author_id a (authors st) of
                   Inl err \<Rightarrow> (st, [Next err])
                 | Inr as \<Rightarrow> (st\<lparr>authors := as\<rparr>, [Redirect (Author_url a)]))))"

text \<open>
  \<^verbatim>\<open>author_delete_get\<close>: when the author is missing the handler redirects and, with no
  \<^verbatim>\<open>return\<close>, goes on to render.
\<close>

definition author_delete_get :: "env \<Rightarrow> request \<Rightarrow> store \<Rightarrow> store \<times> response list" where
  "author_delete_get e req st =
     (case findById e author_id (params_id req) (authors st) of
        Inl err \<Rightarrow> (st, [Next err])
      | Inr a \<Rightarrow>
          (case allBooksByAuthor e (params_id req) st of
             Inl err \<Rightarrow> (st, [Next err])
           | Inr bs \<Rightarrow>
               (let r1 = (case a of None \<Rightarrow> [Redirect ''/catalog/authors''] | Some _ \<Rightarrow> [])
                in (st, r1 @
                      [Render ''author_delete''
                         (author_delete_locals ''Delete Author'' a bs)]))))"

text \<open>
  \<^verbatim>\<open>author_delete_post\<close>: the chain on \<^verbatim>\<open>authorid\<close> trims the field; its errors are never
  read. The books are looked up under \<^verbatim>\<open>req.params.id\<close>, the removal takes
  \<^verbatim>\<open>req.body.authorid\<close>.
\<close>

definition author_delete_post :: "env \<Rightarrow> request \<Rightarrow> store \<Rightarrow> store \<times> response list" where
  "author_delete_post e req st =
     (let (authorid, _) = id_chain ''authorid'' ''Author Id is required'' (body req)
      in case findById e author_id (params_id req) (authors st) of
           Inl err \<Rightarrow> (st, [Next err])
         | Inr a \<Rightarrow>
             (case allBooksByAuthor e (params_id req) st of
                Inl err \<Rightarrow> (st, [Next err])
              | Inr bs \<Rightarrow>
                  if length bs > 0 then
                    (st, [Render ''author_delete''
                            (author_delete_locals ''Delete Author'' a bs)])
                  else
                    (case findByIdAndRemove e author_id authorid (authors st) of
                       Inl err \<Rightarrow> (st, [Next err])
                     | Inr as \<Rightarrow> (st\<lparr>authors := as\<rparr>, [Redirect ''/catalog/authors'']))))"

text \<open>
  \<^verbatim>\<open>author_update_post\<close>. The document is built with \<^verbatim>\<open>_id: req.params.id\<close>; \<open>fresh\<close> is
  the identifier its constructor generates before that.
\<close>

definition author_update_post ::
  "env \<Rightarrow> oid \<Rightarrow> request \<Rightarrow> store \<Rightarrow> store \<times> response list" where
  "author_update_post e fresh req st =
     (let (fn, ln, dob, dod, errors) = author_chains e req;
          a = new_Author (cast_id e fresh (params_id req)) fn ln dob dod
      in if errors \<noteq> [] then
           (st, [Render ''author_form'' (author_form_locals ''Update Author'' a errors)])
         else
           (case findByIdAndUpdate e author_id Author_update (params_id req) a (authors st) of
              Inl err \<Rightarrow> (st, [Next err])
            | Inr (None, as) \<Rightarrow>
                (st\<lparr>authors := as\<rparr>,
                 [Next (TypeError ''Cannot read properties of null (reading url)'')])
            | Inr (Some theAuthor, as) \<Rightarrow>
                (st\<lparr>authors := as\<rparr>, [Redirect (Author_url theAuthor)])))"

section \<open>BookInstance controller\<close>

text \<open>
  \<^verbatim>\<open>new BookInstance({book, imprint, status, due_back})\<close>. The book is the cast of the
  string given. The schema's defaults apply to a path whose value is \<^verbatim>\<open>undefined\<close>:
  \<^verbatim>\<open>"Maintenance"\<close> for the status, and for \<^verbatim>\<open>due_back\<close> the value \<^verbatim>\<open>Date.now()\<close> had when the
  schema was defined.
\<close>

definition new_BookInstance ::
  "env \<Rightarrow> oid \<Rightarrow> string \<Rightarrow> string \<Rightarrow> string option \<Rightarrow> date_value \<Rightarrow> BookInstance" where
  "new_BookInstance e i bk im stat due =
     \<lparr>bookinstance_id = i, book = castObjectId e bk, imprint = im,
      status = (case stat of None \<Rightarrow> ''Maintenance'' | Some s \<Rightarrow> s),
      due_back = with_default (Date_now_at_load e) (cast_date due)\<rparr>"

text \<open>
  \<^verbatim>\<open>.populate("book")\<close> on a document read from the store: the referenced book, or \<^verbatim>\<open>null\<close>
  when there is none.
\<close>

definition populate_book :: "env \<Rightarrow> store \<Rightarrow> BookInstance \<Rightarrow> BookInstance \<times> Book option" where
  "populate_book e st i =
     (BookInstance_hydrate e i,
      case book i of None \<Rightarrow> None | Some k \<Rightarrow> findOne (\<lambda>b. book_id b = k) (books st))"

definition bookinstance_list :: "env \<Rightarrow> store \<Rightarrow> store \<times> response list" where
  "bookinstance_list e st =
     (let allbookInstances = map (populate_book e st) (bookinstances st)
      in (st, [Render ''bookinstance_list''
                 (bookinstance_list_locals ''Book Instance List'' allbookInstances)]))"

definition bookinstance_detail :: "env \<Rightarrow> request \<Rightarrow> store \<Rightarrow> store \<times> response list" where
  "bookinstance_detail e req st =
     (case findById e bookinstance_id (params_id req) (bookinstances st) of
        Inl err \<Rightarrow> (st, [Next err])
      | Inr None \<Rightarrow> (st, [Next (StatusError 404 ''Book copy not found'')])
      | Inr (Some i) \<Rightarrow>
          (st, [Render ''bookinstance_detail''
                  (bookinstance_detail_locals ''Book:'' (populate_book e st i))]))"

text \<open>
  The four chains of \<^verbatim>\<open>bookinstance_create_post\<close> and \<^verbatim>\<open>bookinstance_update_post\<close>;
  \<^verbatim>\<open>body("status").escape()\<close> has no validator.
\<close>

definition bookinstance_chains ::
  "env \<Rightarrow> request \<Rightarrow> string \<times> string \<times> string \<times> date_value \<times> verror list" where
  "bookinstance_chains e req =
     (let (bk, e1) = text_chain ''book'' ''Book must be specified'' (body req);
          (im, e2) = text_chain ''imprint'' ''Imprint must be specified'' (body req);
          stat = escape (toString (body req ''status''));
          (due, e4) = date_chain e ''due_back'' ''Invalid date'' (body req)
      in (bk, im, stat, due, e1 @ e2 @ e4))"

text \<open>The projection \<^verbatim>\<open>"title"\<close> of \<^verbatim>\<open>Book.find({}, "title")\<close>.\<close>

definition book_titles :: "store \<Rightarrow> (oid \<times> string) list" where
  "book_titles st = map (\<lambda>b. (book_id b, title b)) (books st)"

text \<open>
  The form of a book instance rendered again after a validation error. The locals read
  \<^verbatim>\<open>bookInstance.book._id\<close>, which throws when the document has no book.
\<close>

definition bookinstance_form ::
  "string \<Rightarrow> BookInstance \<Rightarrow> verror list \<Rightarrow> store \<Rightarrow> response" where
  "bookinstance_form ttl bookInstance errors st =
     (case book bookInstance of
        None \<Rightarrow> Next (TypeError ''Cannot read properties of undefined (reading _id)'')
      | Some k \<Rightarrow>
          Render ''bookinstance_form''
            (bookinstance_form_locals ttl (book_titles st) k bookInstance errors))"

definition bookinstance_create_post ::
  "env \<Rightarrow> oid \<Rightarrow> request \<Rightarrow> store \<Rightarrow> store \<times> response list" where
  "bookinstance_create_post e fresh req st =
     (let (bk, im, stat, due, errors) = bookinstance_chains e req;
          bookInstance = new_BookInstance e fresh bk im (Some stat) due
      in if errors \<noteq> [] then
           (st, [bookinstance_form ''Create BookInstance'' bookInstance errors st])
         else
           (case save BookInstance_validate bookinstance_id bookInstance (bookinstances st) of
              Inl err \<Rightarrow> (st, [Next err])
            | Inr is \<Rightarrow>
                (st\<lparr>bookinstances := is\<rparr>, [Redirect (BookInstance_url bookInstance)])))"

text \<open>
  \<^verbatim>\<open>bookinstance_delete_post\<close>: on a validation error the handler redirects and does not
  return; the removal is called in either case, and the redirect after it follows when
  the removal has not been rejected.
\<close>

definition bookinstance_delete_post :: "env \<Rightarrow> request \<Rightarrow> store \<Rightarrow> store \<times> response list" where
  "bookinstance_delete_post e req st =
     (let (bookinstanceid, errors) =
            id_chain ''bookinstanceid'' ''Book Instance is required'' (body req);
          r1 = (if errors \<noteq> [] then [Redirect ''/catalog/bookinstances''] else [])
      in case findByIdAndRemove e bookinstance_id bookinstanceid (bookinstances st) of
           Inl err \<Rightarrow> (st, r1 @ [Next err])
         | Inr is \<Rightarrow>
             (st\<lparr>bookinstances := is\<rparr>, r1 @ [Redirect ''/catalog/bookinstances'']))"

definition bookinstance_update_post ::
  "env \<Rightarrow> oid \<Rightarrow> request \<Rightarrow> store \<Rightarrow> store \<times> response list" where
  "bookinstance_update_post e fresh req st =
     (let (bk, im, stat, due, errors) = bookinstance_chains e req;
          bookInstance =
            new_BookInstance e (cast_id e fresh (params_id req)) bk im (Some stat) due
      in if errors \<noteq> [] then
           (st, [bookinstance_form ''Update BookInstance'' bookInstance errors st])
         else
           (case findByIdAndUpdate e bookinstance_id BookInstance_update (params_id req)
                   bookInstance (bookinstances st) of
              Inl err \<Rightarrow> (st, [Next err])
            | Inr (None, is) \<Rightarrow>
                (st\<lparr>bookinstances := is\<rparr>,
                 [Next (TypeError ''Cannot read properties of null (reading url)'')])
            | Inr (Some theBookInstance, is) \<Rightarrow>
                (st\<lparr>bookinstances := is\<rparr>, [Redirect (BookInstance_url theBookInstance)])))"

section \<open>Book controller\<close>

text \<open>
  The first middleware of \<^verbatim>\<open>book_create_post\<close> and \<^verbatim>\<open>book_update_post\<close>: the value of
  \<^verbatim>\<open>req.body.genre\<close> once it has run, an array in every branch.
\<close>

definition genre_to_array :: "raw_genre \<Rightarrow> string list" where
  "genre_to_array g =
     (case g of
        GenreArray gs \<Rightarrow> gs
      | GenreUndefined \<Rightarrow> []
      | GenreScalar x \<Rightarrow> [x])"

text \<open>
  \<^verbatim>\<open>new Book({title, author, summary, isbn, genre})\<close>. The author is the cast of the string
  given. The genre array is cast as a whole: when one element fails, the path keeps the
  empty array and the document is invalid.
\<close>

definition cast_genre :: "env \<Rightarrow> string list \<Rightarrow> oid list option" where
  "cast_genre e g = those (map (castObjectId e) g)"

definition new_Book ::
  "env \<Rightarrow> oid \<Rightarrow> string \<Rightarrow> string \<Rightarrow> string \<Rightarrow> string \<Rightarrow> string list \<Rightarrow> Book" where
  "new_Book e i t a s n g =
     \<lparr>book_id = i, title = t, author = castObjectId e a, summary = s, isbn = n,
      genre = (case cast_genre e g of None \<Rightarrow> [] | Some ks \<Rightarrow> ks)\<rparr>"

text \<open>
  The chains of the two book forms: four text fields, then \<^verbatim>\<open>body("genre.*").escape()\<close>
  on every element of the array.
\<close>

definition book_chains ::
  "request \<Rightarrow> string \<times> string \<times> string \<times> string \<times> string list \<times> verror list" where
  "book_chains req =
     (let g0 = genre_to_array (body_genre req);
          (t, e1) = text_chain ''title'' ''Title must not be empty.'' (body req);
          (a, e2) = text_chain ''author'' ''Author must not be empty.'' (body req);
          (s, e3) = text_chain ''summary'' ''Summary must not be empty.'' (body req);
          (n, e4) = text_chain ''isbn'' ''ISBN must not be empty.'' (body req);
          g = map escape g0
      in (t, a, s, n, g, e1 @ e2 @ e3 @ e4))"

text \<open>\<^verbatim>\<open>book_update_post\<close> spells the message of the \<^verbatim>\<open>isbn\<close> chain without the full stop.\<close>

definition book_update_chains ::
  "request \<Rightarrow> string \<times> string \<times> string \<times> string \<times> string list \<times> verror list" where
  "book_update_chains req =
     (let g0 = genre_to_array (body_genre req);
          (t, e1) = text_chain ''title'' ''Title must not be empty.'' (body req);
          (a, e2) = text_chain ''author'' ''Author must not be empty.'' (body req);
          (s, e3) = text_chain ''summary'' ''Summary must not be empty.'' (body req);
          (n, e4) = text_chain ''isbn'' ''ISBN must not be empty'' (body req);
          g = map escape g0
      in (t, a, s, n, g, e1 @ e2 @ e3 @ e4))"

text \<open>The genres of the form, each with the mark \<^verbatim>\<open>checked\<close> when the book has it.\<close>

definition mark_checked :: "Book \<Rightarrow> Genre list \<Rightarrow> (Genre \<times> bool) list" where
  "mark_checked b gs = map (\<lambda>g. (g, genre_id g \<in> set (genre b))) gs"

text \<open>\<^verbatim>\<open>.populate("author")\<close> on a book read from the store.\<close>

definition populate_author :: "store \<Rightarrow> Book \<Rightarrow> Author option" where
  "populate_author st b =
     (case author b of None \<Rightarrow> None | Some k \<Rightarrow> findOne (\<lambda>a. author_id a = k) (authors st))"

definition book_list :: "store \<Rightarrow> store \<times> response list" where
  "book_list st =
     (let allBooks =
            map (\<lambda>b. (book_id b, title b, populate_author st b)) (sort_key title (books st))
      in (st, [Render ''book_list'' (book_list_locals ''Book List'' allBooks)]))"

text \<open>\<^verbatim>\<open>BookInstance.find({book: id})\<close>, the documents as they are read.\<close>

definition instancesOfBook :: "env \<Rightarrow> string \<Rightarrow> store \<Rightarrow> error + BookInstance list" where
  "instancesOfBook e i st =
     (case findByRef e book i (bookinstances st) of
        Inl err \<Rightarrow> Inl err
      | Inr is \<Rightarrow> Inr (map (BookInstance_hydrate e) is))"

definition book_detail :: "env \<Rightarrow> request \<Rightarrow> store \<Rightarrow> store \<times> response list" where
  "book_detail e req st =
     (case findById e book_id (params_id req) (books st) of
        Inl err \<Rightarrow> (st, [Next err])
      | Inr bo \<Rightarrow>
          (case instancesOfBook e (params_id req) st of
             Inl err \<Rightarrow> (st, [Next err])
           | Inr is \<Rightarrow>
               (case bo of
                  None \<Rightarrow> (st, [Next (StatusError 404 ''Book not found'')])
                | Some b \<Rightarrow>
                    (st, [Render ''book_detail''
                            (book_detail_locals (title b) b (populate_author st b)
                               (List.map_filter
                                  (\<lambda>g. findOne (\<lambda>d. genre_id d = g) (genres st)) (genre b))
                               (sort_key status is))]))))"

definition book_create_post :: "env \<Rightarrow> oid \<Rightarrow> request \<Rightarrow> store \<Rightarrow> store \<times> response list" where
  "book_create_post e fresh req st =
     (let (t, a, s, n, g, errors) = book_chains req;
          b = new_Book e fresh t a s n g
      in if errors \<noteq> [] then
           (st, [Render ''book_form''
                   (book_form_locals ''Create Book'' (authors st)
                      (mark_checked b (genres st)) b errors)])
         else
           (case findOne (\<lambda>d. title d = t) (books st) of
              Some bookExists \<Rightarrow> (st, [Redirect (Book_url bookExists)])
            | None \<Rightarrow>
                (case save (\<lambda>d. cast_genre e g \<noteq> None \<and> Book_validate d) book_id b
                        (books st) of
                   Inl err \<Rightarrow> (st, [Next err])
                 | Inr bs \<Rightarrow> (st\<lparr>books := bs\<rparr>, [Redirect (Book_url b)]))))"

definition book_delete_get :: "env \<Rightarrow> request \<Rightarrow> store \<Rightarrow> store \<times> response list" where
  "book_delete_get e req st =
     (case findById e book_id (params_id req) (books st) of
        Inl err \<Rightarrow> (st, [Next err])
      | Inr b \<Rightarrow>
          (case instancesOfBook e (params_id req) st of
             Inl err \<Rightarrow> (st, [Next err])
           | Inr bookInstances \<Rightarrow>
               (let r1 = (case b of None \<Rightarrow> [Redirect ''/catalog/books''] | Some _ \<Rightarrow> [])
                in (st, r1 @
                      [Render ''book_delete''
                         (book_delete_locals ''Delete Book'' b bookInstances)]))))"

text \<open>
  \<^verbatim>\<open>book_delete_post\<close>: the instances are looked up under \<^verbatim>\<open>req.params.id\<close>, the removal
  takes \<^verbatim>\<open>req.body.bookid\<close>, trimmed by its chain.
\<close>

definition book_delete_post :: "env \<Rightarrow> request \<Rightarrow> store \<Rightarrow> store \<times> response list" where
  "book_delete_post e req st =
     (let (bookid, _) = id_chain ''bookid'' ''Invalid value'' (body req)
      in case findById e book_id (params_id req) (books st) of
           Inl err \<Rightarrow> (st, [Next err])
         | Inr b \<Rightarrow>
             (case instancesOfBook e (params_id req) st of
                Inl err \<Rightarrow> (st, [Next err])
              | Inr bookInstances \<Rightarrow>
                  if length bookInstances > 0 then
                    (st, [Render ''book_delete''
                            (book_delete_locals ''Delete Book'' b bookInstances)])
                  else
                    (case findByIdAndRemove e book_id bookid (books st) of
                       Inl err \<Rightarrow> (st, [Next err])
                     | Inr bs \<Rightarrow> (st\<lparr>books := bs\<rparr>, [Redirect ''/catalog/books'']))))"

definition book_update_post :: "env \<Rightarrow> oid \<Rightarrow> request \<Rightarrow> store \<Rightarrow> store \<times> response list" where
  "book_update_post e fresh req st =
     (let (t, a, s, n, g, errors) = book_update_chains req;
          b = new_Book e (cast_id e fresh (params_id req)) t a s n g
      in if errors \<noteq> [] then
           (st, [Render ''book_form''
                   (book_form_locals ''Update Book'' (authors st)
                      (mark_checked b (genres st)) b errors)])
         else
           (case findByIdAndUpdate e book_id Book_update (params_id req) b (books st) of
              Inl err \<Rightarrow> (st, [Next err])
            | Inr (None, bs) \<Rightarrow>
                (st\<lparr>books := bs\<rparr>,
                 [Next (TypeError ''Cannot read properties of null (reading url)'')])
            | Inr (Some thebook, bs) \<Rightarrow> (st\<lparr>books := bs\<rparr>, [Redirect (Book_url thebook)])))"

section \<open>Example data\<close>

text \<open>
  A concrete environment, store and form, at which the theorems below are instantiated.
  The example environment recognises one date string and casts the strings of 24
  lower-case hexadecimal digits, each to itself.
\<close>

definition lower_hex :: "char \<Rightarrow> bool" where
  "lower_hex c = (c \<in> set ''0123456789abcdef'')"

definition example_env :: env where
  "example_env =
     \<lparr>isISO8601 = (\<lambda>s. s = ''2024-05-01''),
      toDate = (\<lambda>s. if s = ''2024-05-01'' then Some 1714521600000 else None),
      castObjectId = (\<lambda>s. if length s = 24 \<and> list_all lower_hex s then Some s else None),
      Date_now_at_load = 1700000000000\<rparr>"

abbreviation id_a1 :: oid where "id_a1 \<equiv> ''0000000000000000000000a1''"
abbreviation id_a2 :: oid where "id_a2 \<equiv> ''0000000000000000000000a2''"
abbreviation id_a3 :: oid where "id_a3 \<equiv> ''0000000000000000000000a3''"
abbreviation id_a4 :: oid where "id_a4 \<equiv> ''0000000000000000000000a4''"
abbreviation id_b1 :: oid where "id_b1 \<equiv> ''0000000000000000000000b1''"
abbreviation id_b2 :: oid where "id_b2 \<equiv> ''0000000000000000000000b2''"
abbreviation id_b3 :: oid where "id_b3 \<equiv> ''0000000000000000000000b3''"
abbreviation id_b4 :: oid where "id_b4 \<equiv> ''0000000000000000000000b4''"
abbreviation id_c1 :: oid where "id_c1 \<equiv> ''0000000000000000000000c1''"
abbreviation id_c2 :: oid where "id_c2 \<equiv> ''0000000000000000000000c2''"
abbreviation id_c3 :: oid where "id_c3 \<equiv> ''0000000000000000000000c3''"
abbreviation id_c4 :: oid where "id_c4 \<equiv> ''0000000000000000000000c4''"
abbreviation id_e1 :: oid where "id_e1 \<equiv> ''0000000000000000000000e1''"
abbreviation id_ff :: oid where "id_ff \<equiv> ''0000000000000000000000ff''"

definition example_store :: store where
  "example_store =
     \<lparr>authors =
        [\<lparr>author_id = id_a1, first_name = ''Ann'', family_name = ''Zed'',
          date_of_birth = Missing, date_of_death = Missing\<rparr>,
         \<lparr>author_id = id_a2, first_name = ''Ann'', family_name = ''Abe'',
          date_of_birth = Val 0, date_of_death = Null\<rparr>],
      books =
        [\<lparr>book_id = id_b2, title = ''Zebra'', author = Some id_a1, summary = ''S2'',
          isbn = ''222'', genre = [id_e1]\<rparr>,
         \<lparr>book_id = id_b1, title = ''Apple'', author = Some id_a1, summary = ''S1'',
          isbn = ''111'', genre = []\<rparr>,
         \<lparr>book_id = id_b3, title = ''Mango'', author = Some id_a1, summary = ''S3'',
          isbn = ''333'', genre = []\<rparr>],
      bookinstances =
        [\<lparr>bookinstance_id = id_c2, book = Some id_b2, imprint = ''Zed Press'',
          status = ''Loaned'', due_back = Val 1714521600000\<rparr>,
         \<lparr>bookinstance_id = id_c1, book = Some id_b1, imprint = ''Abe Press'',
          status = ''Available'', due_back = Null\<rparr>],
      genres = [\<lparr>genre_id = id_e1, genre_name = ''Fable''\<rparr>]\<rparr>"

definition form :: "string \<Rightarrow> (string \<times> string) list \<Rightarrow> request" where
  "form i kvs = \<lparr>params_id = i, body = map_of kvs, body_genre = GenreUndefined\<rparr>"

section \<open>Facts about the gateway and the chains\<close>

lemmas chain_defs = name_chain_def text_chain_def id_chain_def date_chain_def toString_def trim_def
  is_space_def escape_def isLength_def isAlphanumeric_def alnum_def check_def

lemmas example_defs = example_env_def lower_hex_def

lemma findOne_None_filter: "findOne p xs = None \<longleftrightarrow> filter p xs = []"
  by (induction xs) (auto simp: findOne_def)

lemma findOne_append:
  "findOne p (xs @ ys) = (case findOne p xs of None \<Rightarrow> findOne p ys | Some x \<Rightarrow> Some x)"
  by (induction xs) (auto simp: findOne_def)

lemma findOne_None: "findOne (\<lambda>d. idf d = k) xs = None \<longleftrightarrow> k \<notin> idf ` set xs"
  by (auto simp: findOne_def find_None_iff)

lemma findOne_removeOne:
  "distinct (map idf xs) \<Longrightarrow> findOne (\<lambda>d. idf d = k) (removeOne (\<lambda>d. idf d = k) xs) = None"
proof (induction xs)
  case Nil
  then show ?case by (simp add: findOne_None)
next
  case (Cons x xs)
  show ?case
  proof (cases "idf x = k")
    case True
    with Cons.prems show ?thesis by (auto simp: findOne_None)
  next
    case False
    with Cons show ?thesis by (simp add: findOne_None)
  qed
qed

lemma id_chain_invalid:
  "\<not> isLength 1 None (trim (toString (b f))) \<Longrightarrow> trim (toString (b f)) = []"
  by (cases "trim (toString (b f))") (simp_all add: isLength_def)

lemma escape_char_alnum: "list_all alnum (escape_char c) \<Longrightarrow> escape_char c = [c]"
  by (auto simp: alnum_def split: if_splits)

lemma escape_alnum: "list_all alnum (escape s) \<Longrightarrow> escape s = s"
  by (induction s) (auto simp: escape_def dest: escape_char_alnum simp del: escape_char.simps)

lemma name_chain_accepts:
  assumes "name_chain f m1 m2 b = (v, [])"
  shows "v \<noteq> [] \<and> length v \<le> 100"
proof -
  let ?v1 = "trim (toString (b f))"
  from assms have v: "v = escape ?v1" and len: "isLength 1 (Some 100) ?v1"
    and al: "isAlphanumeric (escape ?v1)"
    by (auto simp: name_chain_def Let_def check_def split: if_splits)
  from al have "escape ?v1 = ?v1" by (auto simp: isAlphanumeric_def intro: escape_alnum)
  with v len al show ?thesis by (simp add: isLength_def isAlphanumeric_def)
qed

lemma author_chains_accepts:
  assumes "author_chains e req = (fn, ln, dob, dod, [])"
  shows "Author_validate (new_Author i fn ln dob dod)"
proof -
  from assms obtain "name_chain ''first_name'' ''First name must be specified.''
        ''First name has non-alphanumeric characters.'' (body req) = (fn, [])"
    and "name_chain ''family_name'' ''Family name must be specified.''
        ''Family name has non-alphanumeric characters.'' (body req) = (ln, [])"
    by (auto simp: author_chains_def Let_def split: prod.splits)
  then show ?thesis
    by (auto simp: Author_validate_def new_Author_def dest: name_chain_accepts)
qed

lemma author_create_new:
  assumes ch: "author_chains e req = (fn, ln, dob, dod, [])"
    and nf: "findOne (\<lambda>d. first_name d = fn \<and> family_name d = ln) (authors st) = None"
    and fr: "findOne (\<lambda>d. author_id d = f1) (authors st) = None"
  shows "author_create_post e f1 req st =
           (st\<lparr>authors := authors st @ [new_Author f1 fn ln dob dod]\<rparr>,
            [Redirect (''/catalog/author/'' @ f1)])"
  using author_chains_accepts[OF ch, of f1] nf fr
  by (simp add: author_create_post_def ch save_def Author_url_def new_Author_def)

lemma author_create_existing:
  assumes ch: "author_chains e req = (fn, ln, dob, dod, [])"
    and nf: "findOne (\<lambda>d. first_name d = fn \<and> family_name d = ln) (authors st) = Some a"
  shows "author_create_post e f2 req st = (st, [Redirect (''/catalog/author/'' @ author_id a)])"
  using nf by (simp add: author_create_post_def ch Author_url_def)

lemma book_create_existing:
  assumes ch: "book_chains req = (t, a, s, n, g, [])"
    and nf: "findOne (\<lambda>d. title d = t) (books st) = Some b"
  shows "book_create_post e fresh req st = (st, [Redirect (''/catalog/book/'' @ book_id b)])"
  using nf by (simp add: book_create_post_def ch Book_url_def)

lemma bookinstance_create_new:
  assumes ch: "bookinstance_chains e req = (bk, im, stat, due, [])"
    and bk: "castObjectId e bk \<noteq> None"
    and st: "stat \<in> set [''Available'', ''Maintenance'', ''Loaned'', ''Reserved'']"
    and fr: "findOne (\<lambda>d. bookinstance_id d = f1) (bookinstances st) = None"
  shows "bookinstance_create_post e f1 req st =
           (st\<lparr>bookinstances := bookinstances st @
                  [new_BookInstance e f1 bk im (Some stat) due]\<rparr>,
            [Redirect (''/catalog/bookinstance/'' @ f1)])"
proof -
  from ch have "snd (text_chain ''imprint'' ''Imprint must be specified'' (body req)) = []"
    and im: "im = fst (text_chain ''imprint'' ''Imprint must be specified'' (body req))"
    by (auto simp: bookinstance_chains_def Let_def split: prod.splits)
  then have "im \<noteq> []"
    by (cases "trim (toString (body req ''imprint''))")
       (auto simp: text_chain_def Let_def check_def isLength_def escape_def split: if_splits)
  with bk st fr show ?thesis
    by (auto simp: bookinstance_create_post_def ch save_def BookInstance_validate_def
        new_BookInstance_def BookInstance_url_def)
qed

section \<open>Creation with deduplication\<close>

text \<open>
  Claim C1. A valid Author submission (no validation error) whose sanitized
  first name and family name are on no stored author, sent twice in a row with fresh
  identifiers \<open>f1\<close> and \<open>f2\<close> (\<open>f1\<close> not yet in the collection): after both calls exactly
  one stored author has that pair of names, the second call leaves the store as the first
  left it, and both calls redirect to \<^verbatim>\<open>/catalog/author/f1\<close>. A valid Book submission whose
  sanitized title is already on a stored book redirects to that book and leaves the store
  as it was.
\<close>

theorem create_dedup:
  "(author_chains e req = (fn, ln, dob, dod, []) \<and>
    findOne (\<lambda>d. first_name d = fn \<and> family_name d = ln) (authors st) = None \<and>
    findOne (\<lambda>d. author_id d = f1) (authors st) = None \<longrightarrow>
      (case author_create_post e f1 req st of (st1, r1) \<Rightarrow>
         case author_create_post e f2 req st1 of (st2, r2) \<Rightarrow>
           length (filter (\<lambda>d. first_name d = fn \<and> family_name d = ln) (authors st2)) = 1 \<and>
           r1 = [Redirect (''/catalog/author/'' @ f1)] \<and> r2 = r1 \<and> st2 = st1)) \<and>
   (book_chains breq = (t, a, s, n, g, []) \<and>
    findOne (\<lambda>d. title d = t) (books bst) = Some b \<longrightarrow>
      book_create_post e fresh breq bst = (bst, [Redirect (''/catalog/book/'' @ book_id b)]))"
proof (intro conjI impI)
  assume h: "author_chains e req = (fn, ln, dob, dod, []) \<and>
    findOne (\<lambda>d. first_name d = fn \<and> family_name d = ln) (authors st) = None \<and>
    findOne (\<lambda>d. author_id d = f1) (authors st) = None"
  let ?p = "\<lambda>d. first_name d = fn \<and> family_name d = ln"
  let ?a = "new_Author f1 fn ln dob dod"
  let ?st1 = "st\<lparr>authors := authors st @ [?a]\<rparr>"
  from h have first: "author_create_post e f1 req st = (?st1, [Redirect (''/catalog/author/'' @ f1)])"
    by (simp add: author_create_new)
  from h have "findOne ?p (authors ?st1) = Some ?a"
    by (simp add: findOne_append) (simp add: findOne_def new_Author_def)
  with h have second: "author_create_post e f2 req ?st1 = (?st1, [Redirect (''/catalog/author/'' @ author_id ?a)])"
    by (simp add: author_create_existing)
  from h have cnt: "filter ?p (authors ?st1) = [?a]"
    by (simp add: findOne_None_filter new_Author_def)
  show "case author_create_post e f1 req st of (st1, r1) \<Rightarrow>
         case author_create_post e f2 req st1 of (st2, r2) \<Rightarrow>
           length (filter ?p (authors st2)) = 1 \<and>
           r1 = [Redirect (''/catalog/author/'' @ f1)] \<and> r2 = r1 \<and> st2 = st1"
    unfolding first second prod.case using cnt by (simp add: new_Author_def)
next
  assume "book_chains breq = (t, a, s, n, g, []) \<and>
    findOne (\<lambda>d. title d = t) (books bst) = Some b"
  then show "book_create_post e fresh breq bst = (bst, [Redirect (''/catalog/book/'' @ book_id b)])"
    by (simp add: book_create_existing)
qed

theorem create_dedup_witness:
  "(case author_create_post example_env id_a3
           (form [] [(''first_name'', '' Jane''), (''family_name'', ''Austen'')]) example_store of
      (st1, r1) \<Rightarrow>
        case author_create_post example_env id_a4
               (form [] [(''first_name'', '' Jane''), (''family_name'', ''Austen'')]) st1 of
          (st2, r2) \<Rightarrow>
            length (filter (\<lambda>d. first_name d = ''Jane'' \<and> family_name d = ''Austen'') (authors st2)) = 1 \<and>
            r1 = [Redirect ''/catalog/author/0000000000000000000000a3''] \<and> r2 = r1 \<and> st2 = st1) \<and>
   book_create_post example_env id_b4
     (form [] [(''title'', ''Apple''), (''author'', id_a2), (''summary'', ''S''), (''isbn'', ''123'')])
     example_store = (example_store, [Redirect ''/catalog/book/0000000000000000000000b1''])"
proof -
  have h1: "author_chains example_env
              (form [] [(''first_name'', '' Jane''), (''family_name'', ''Austen'')]) =
            (''Jane'', ''Austen'', Absent, Absent, [])"
    by (simp add: author_chains_def form_def chain_defs)
  have h2: "findOne (\<lambda>d. first_name d = ''Jane'' \<and> family_name d = ''Austen'')
              (authors example_store) = None"
    by (simp add: example_store_def findOne_def)
  have h3: "findOne (\<lambda>d. author_id d = id_a3) (authors example_store) = None"
    by (simp add: example_store_def findOne_def)
  have h4: "book_chains (form [] [(''title'', ''Apple''), (''author'', id_a2),
              (''summary'', ''S''), (''isbn'', ''123'')]) = (''Apple'', id_a2, ''S'', ''123'', [], [])"
    by (simp add: book_chains_def form_def chain_defs genre_to_array_def)
  have h5: "findOne (\<lambda>d. title d = ''Apple'') (books example_store) =
              Some \<lparr>book_id = id_b1, title = ''Apple'', author = Some id_a1, summary = ''S1'',
                    isbn = ''111'', genre = []\<rparr>"
    by (simp add: example_store_def findOne_def)
  from create_dedup [of example_env
      "form [] [(''first_name'', '' Jane''), (''family_name'', ''Austen'')]"
      "''Jane''" "''Austen''" Absent Absent example_store id_a3 id_a4
      "form [] [(''title'', ''Apple''), (''author'', id_a2), (''summary'', ''S''), (''isbn'', ''123'')]"
      "''Apple''" id_a2 "''S''" "''123''" "[]" example_store
      "\<lparr>book_id = id_b1, title = ''Apple'', author = Some id_a1, summary = ''S1'',
        isbn = ''111'', genre = []\<rparr>" id_b4]
    h1 h2 h3 h4 h5
  show ?thesis by simp
qed

section \<open>Detail pages of missing documents\<close>

text \<open>
  Claim C2, as stated, at an identifier that is on no stored document and that the
  driver does not cast to an ObjectId: the three detail handlers hand the cast error of the
  lookup to \<^verbatim>\<open>next\<close>, not an error with status 404.
\<close>

theorem detail_wrong_id_counterexample:
  "findOne (\<lambda>d. author_id d = ''not an object id'') (authors example_store) = None \<and>
   findOne (\<lambda>d. book_id d = ''not an object id'') (books example_store) = None \<and>
   findOne (\<lambda>d. bookinstance_id d = ''not an object id'') (bookinstances example_store) = None \<and>
   author_detail example_env (form ''not an object id'' []) example_store =
     (example_store, [Next (CastError ''not an object id'')]) \<and>
   book_detail example_env (form ''not an object id'' []) example_store =
     (example_store, [Next (CastError ''not an object id'')]) \<and>
   bookinstance_detail example_env (form ''not an object id'' []) example_store =
     (example_store, [Next (CastError ''not an object id'')]) \<and>
   snd (author_detail example_env (form ''not an object id'' []) example_store) \<noteq>
     [Next (StatusError 404 ''Author not found'')]"
  by (simp add: author_detail_def book_detail_def bookinstance_detail_def findById_def
      form_def example_defs example_store_def findOne_def)

text \<open>
  Claim C2, amended. A detail request for an author, a book or a book instance whose
  identifier casts to an ObjectId that is on no stored document hands an error with
  status 404 to \<^verbatim>\<open>next\<close> and returns the store as it was. A detail request whose
  identifier does not cast hands the cast error to \<^verbatim>\<open>next\<close> instead, and returns the store
  as it was too.
\<close>

theorem detail_not_found:
  "(findById e author_id (params_id req) (authors st) = Inr None \<longrightarrow>
      author_detail e req st = (st, [Next (StatusError 404 ''Author not found'')])) \<and>
   (findById e book_id (params_id req) (books st) = Inr None \<longrightarrow>
      book_detail e req st = (st, [Next (StatusError 404 ''Book not found'')])) \<and>
   (findById e bookinstance_id (params_id req) (bookinstances st) = Inr None \<longrightarrow>
      bookinstance_detail e req st = (st, [Next (StatusError 404 ''Book copy not found'')])) \<and>
   (castObjectId e (params_id creq) = None \<longrightarrow>
      author_detail e creq cst = (cst, [Next (CastError (params_id creq))]) \<and>
      book_detail e creq cst = (cst, [Next (CastError (params_id creq))]) \<and>
      bookinstance_detail e creq cst = (cst, [Next (CastError (params_id creq))]))"
  by (auto simp: author_detail_def book_detail_def bookinstance_detail_def findById_def
      allBooksByAuthor_def instancesOfBook_def findByRef_def split: option.splits)

theorem detail_not_found_witness:
  "author_detail example_env (form id_ff []) example_store =
     (example_store, [Next (StatusError 404 ''Author not found'')]) \<and>
   book_detail example_env (form id_ff []) example_store =
     (example_store, [Next (StatusError 404 ''Book not found'')]) \<and>
   bookinstance_detail example_env (form id_ff []) example_store =
     (example_store, [Next (StatusError 404 ''Book copy not found'')]) \<and>
   author_detail example_env (form ''abc'' []) example_store =
     (example_store, [Next (CastError ''abc'')]) \<and>
   book_detail example_env (form ''abc'' []) example_store =
     (example_store, [Next (CastError ''abc'')]) \<and>
   bookinstance_detail example_env (form ''abc'' []) example_store =
     (example_store, [Next (CastError ''abc'')])"
proof -
  have h1: "findById example_env author_id (params_id (form id_ff [])) (authors example_store) =
              Inr None"
    by (simp add: form_def example_store_def findById_def findOne_def example_defs)
  have h2: "findById example_env book_id (params_id (form id_ff [])) (books example_store) =
              Inr None"
    by (simp add: form_def example_store_def findById_def findOne_def example_defs)
  have h3: "findById example_env bookinstance_id (params_id (form id_ff []))
              (bookinstances example_store) = Inr None"
    by (simp add: form_def example_store_def findById_def findOne_def example_defs)
  have h4: "castObjectId example_env (params_id (form ''abc'' [])) = None"
    by (simp add: form_def example_defs)
  have p: "params_id (form ''abc'' []) = ''abc''"
    by (simp add: form_def)
  from detail_not_found [of example_env "form id_ff []" example_store "form ''abc'' []"
      example_store] h1 h2 h3 h4 p
  show ?thesis by simp
qed

section \<open>Refused deletions\<close>

text \<open>
  Claim C3. A delete POST whose path names a stored author with at least one book
  (a stored book with at least one instance) leaves the store as it was, and its response
  is the one the confirm-delete GET gives for the same request: the delete view with the
  document and its dependents.
\<close>

theorem delete_refused:
  "(findById e author_id (params_id req) (authors st) = Inr (Some a) \<and>
    allBooksByAuthor e (params_id req) st = Inr bs \<and> bs \<noteq> [] \<longrightarrow>
      author_delete_post e req st = (st, snd (author_delete_get e req st)) \<and>
      snd (author_delete_get e req st) =
        [Render ''author_delete'' (author_delete_locals ''Delete Author'' (Some a) bs)]) \<and>
   (findById e book_id (params_id breq) (books bst) = Inr (Some b) \<and>
    instancesOfBook e (params_id breq) bst = Inr is \<and> is \<noteq> [] \<longrightarrow>
      book_delete_post e breq bst = (bst, snd (book_delete_get e breq bst)) \<and>
      snd (book_delete_get e breq bst) =
        [Render ''book_delete'' (book_delete_locals ''Delete Book'' (Some b) is)])"
  by (simp add: author_delete_post_def author_delete_get_def book_delete_post_def
      book_delete_get_def Let_def split: prod.splits)

theorem delete_refused_witness:
  "author_delete_post example_env (form id_a1 [(''authorid'', id_a1)]) example_store =
     (example_store,
      [Render ''author_delete''
         (author_delete_locals ''Delete Author''
            (Some \<lparr>author_id = id_a1, first_name = ''Ann'', family_name = ''Zed'',
                   date_of_birth = Missing, date_of_death = Missing\<rparr>)
            [(id_b2, ''Zebra'', ''S2''), (id_b1, ''Apple'', ''S1''), (id_b3, ''Mango'', ''S3'')])]) \<and>
   author_delete_get example_env (form id_a1 [(''authorid'', id_a1)]) example_store =
     (example_store,
      [Render ''author_delete''
         (author_delete_locals ''Delete Author''
            (Some \<lparr>author_id = id_a1, first_name = ''Ann'', family_name = ''Zed'',
                   date_of_birth = Missing, date_of_death = Missing\<rparr>)
            [(id_b2, ''Zebra'', ''S2''), (id_b1, ''Apple'', ''S1''), (id_b3, ''Mango'', ''S3'')])]) \<and>
   book_delete_post example_env (form id_b2 [(''bookid'', id_b2)]) example_store =
     (example_store,
      [Render ''book_delete''
         (book_delete_locals ''Delete Book''
            (Some \<lparr>book_id = id_b2, title = ''Zebra'', author = Some id_a1, summary = ''S2'',
                   isbn = ''222'', genre = [id_e1]\<rparr>)
            [\<lparr>bookinstance_id = id_c2, book = Some id_b2, imprint = ''Zed Press'',
              status = ''Loaned'', due_back = Val 1714521600000\<rparr>])]) \<and>
   book_delete_get example_env (form id_b2 [(''bookid'', id_b2)]) example_store =
     (example_store,
      snd (book_delete_post example_env (form id_b2 [(''bookid'', id_b2)]) example_store))"
proof -
  let ?a = "\<lparr>author_id = id_a1, first_name = ''Ann'', family_name = ''Zed'',
              date_of_birth = Missing, date_of_death = Missing\<rparr>"
  let ?b = "\<lparr>book_id = id_b2, title = ''Zebra'', author = Some id_a1, summary = ''S2'',
              isbn = ''222'', genre = [id_e1]\<rparr>"
  let ?bs = "[(id_b2, ''Zebra'', ''S2''), (id_b1, ''Apple'', ''S1''), (id_b3, ''Mango'', ''S3'')]"
  let ?is = "[\<lparr>bookinstance_id = id_c2, book = Some id_b2, imprint = ''Zed Press'',
                status = ''Loaned'', due_back = Val 1714521600000\<rparr>]"
  let ?ra = "form id_a1 [(''authorid'', id_a1)]"
  let ?rb = "form id_b2 [(''bookid'', id_b2)]"
  have h1: "findById example_env author_id (params_id ?ra) (authors example_store) =
              Inr (Some ?a)"
    by (simp add: form_def example_store_def findById_def findOne_def example_defs)
  have h2: "allBooksByAuthor example_env (params_id ?ra) example_store = Inr ?bs"
    by (simp add: form_def example_store_def allBooksByAuthor_def findByRef_def
        title_summary_def example_defs)
  have h3: "findById example_env book_id (params_id ?rb) (books example_store) = Inr (Some ?b)"
    by (simp add: form_def example_store_def findById_def findOne_def example_defs)
  have h4: "instancesOfBook example_env (params_id ?rb) example_store = Inr ?is"
    by (simp add: form_def example_store_def instancesOfBook_def findByRef_def
        BookInstance_hydrate_def with_default_def example_defs)
  have g1: "fst (author_delete_get example_env ?ra example_store) = example_store"
    by (simp add: author_delete_get_def h1 h2)
  have g2: "fst (book_delete_get example_env ?rb example_store) = example_store"
    by (simp add: book_delete_get_def h3 h4)
  from delete_refused [of example_env ?ra example_store ?a ?bs ?rb example_store ?b ?is]
    h1 h2 h3 h4 g1 g2
  show ?thesis by (simp add: prod_eq_iff)
qed

section \<open>Normalization of the genre field\<close>

text \<open>
  Claim C4. The first middleware of the two book forms turns an absent genre into
  the empty list, a single value into the list of that value, and leaves a list as it is;
  the chains of both forms work on that list (each element escaped).
\<close>

theorem genre_normalized:
  "genre_to_array GenreUndefined = [] \<and>
   genre_to_array (GenreScalar ''g1'') = [''g1''] \<and>
   genre_to_array (GenreScalar x) = [x] \<and>
   genre_to_array (GenreArray gs) = gs \<and>
   fst (snd (snd (snd (snd (book_chains req))))) =
     map escape (genre_to_array (body_genre req)) \<and>
   fst (snd (snd (snd (snd (book_update_chains req))))) =
     map escape (genre_to_array (body_genre req))"
  by (simp add: genre_to_array_def book_chains_def book_update_chains_def Let_def
      split: prod.splits)

section \<open>Date fields\<close>

text \<open>
  Claim C5, as stated, at a book instance created from a body without \<^verbatim>\<open>due_back\<close>:
  the field is falsy and passes validation, and the stored document has a date, the
  default of the schema.
\<close>

theorem date_fields_counterexample:
  "body (form [] [(''book'', id_b1), (''imprint'', ''Imp''), (''status'', ''Available'')])
     ''due_back'' = None \<and>
   bookinstance_chains example_env
     (form [] [(''book'', id_b1), (''imprint'', ''Imp''), (''status'', ''Available'')]) =
     (id_b1, ''Imp'', ''Available'', Absent, []) \<and>
   bookinstance_create_post example_env id_c3
     (form [] [(''book'', id_b1), (''imprint'', ''Imp''), (''status'', ''Available'')])
     example_store =
     (example_store\<lparr>bookinstances := bookinstances example_store @
        [\<lparr>bookinstance_id = id_c3, book = Some id_b1, imprint = ''Imp'',
          status = ''Available'', due_back = Val 1700000000000\<rparr>]\<rparr>,
      [Redirect ''/catalog/bookinstance/0000000000000000000000c3'']) \<and>
   due_back (last (bookinstances (fst (bookinstance_create_post example_env id_c3
     (form [] [(''book'', id_b1), (''imprint'', ''Imp''), (''status'', ''Available'')])
     example_store)))) \<noteq> Missing \<and>
   due_back (last (bookinstances (fst (bookinstance_create_post example_env id_c3
     (form [] [(''book'', id_b1), (''imprint'', ''Imp''), (''status'', ''Available'')])
     example_store)))) \<noteq> Null"
proof -
  let ?r = "form [] [(''book'', id_b1), (''imprint'', ''Imp''), (''status'', ''Available'')]"
  have h0: "body ?r ''due_back'' = None" by (simp add: form_def)
  have h1: "bookinstance_chains example_env ?r = (id_b1, ''Imp'', ''Available'', Absent, [])"
    by (simp add: bookinstance_chains_def form_def chain_defs)
  have h2: "findOne (\<lambda>d. bookinstance_id d = id_c3) (bookinstances example_store) = None"
    by (simp add: example_store_def findOne_def)
  have h3: "castObjectId example_env id_b1 \<noteq> None"
    by (simp add: example_defs)
  have h4: "new_BookInstance example_env id_c3 id_b1 ''Imp'' (Some ''Available'') Absent =
      \<lparr>bookinstance_id = id_c3, book = Some id_b1, imprint = ''Imp'',
          status = ''Available'', due_back = Val 1700000000000\<rparr>"
    by (simp add: new_BookInstance_def cast_date_def with_default_def example_defs)
  from bookinstance_create_new [OF h1 h3 _ h2] h4
  have h5: "bookinstance_create_post example_env id_c3 ?r example_store =
     (example_store\<lparr>bookinstances := bookinstances example_store @
        [\<lparr>bookinstance_id = id_c3, book = Some id_b1, imprint = ''Imp'',
          status = ''Available'', due_back = Val 1700000000000\<rparr>]\<rparr>,
      [Redirect ''/catalog/bookinstance/0000000000000000000000c3''])"
    by simp
  from h0 h1 h5 show ?thesis by simp
qed

text \<open>
  Claim C5, amended. For a date chain on any field: the empty string passes with no
  validation failure and the document gets \<^verbatim>\<open>null\<close> there, whatever the default; an absent
  field passes as well and leaves the path of the document undefined; a non-empty string
  that \<open>isISO8601\<close> rejects gives one validation failure tagged with the field; a non-empty
  string that it accepts gives none and the document gets what \<open>toDate\<close> makes of it. The
  dates of the author forms and of the book instance forms come from that chain. A new
  author takes its two dates from the cast as they are; a new book instance takes
  \<^verbatim>\<open>due_back\<close> from the cast with the default of the schema where the cast left it undefined,
  so that a body without \<^verbatim>\<open>due_back\<close> gives the default and not an absent date. A create
  POST that passes validation stores the new document as built.
\<close>

theorem date_fields:
  "(b1 f1 = Some [] \<longrightarrow>
      date_chain e f1 m1 b1 = (EmptyString, []) \<and> cast_date EmptyString = Null \<and>
      with_default d1 (Null :: date path) = Null) \<and>
   (b2 f2 = None \<longrightarrow>
      date_chain e f2 m2 b2 = (Absent, []) \<and> cast_date Absent = Missing) \<and>
   (b3 f3 = Some s3 \<and> s3 \<noteq> [] \<and> \<not> isISO8601 e s3 \<longrightarrow>
      snd (date_chain e f3 m3 b3) = [\<lparr>err_path = f3, err_msg = m3, err_value = s3\<rparr>]) \<and>
   (b4 f4 = Some s4 \<and> s4 \<noteq> [] \<and> isISO8601 e s4 \<longrightarrow>
      snd (date_chain e f4 m4 b4) = [] \<and>
      cast_date (fst (date_chain e f4 m4 b4)) =
        (case toDate e s4 of None \<Rightarrow> Null | Some t \<Rightarrow> Val t) \<and>
      with_default d4 (cast_date (fst (date_chain e f4 m4 b4))) =
        cast_date (fst (date_chain e f4 m4 b4))) \<and>
   (case author_chains e req of
      (fn, ln, dob, dod, errors) \<Rightarrow>
        dob = fst (date_chain e ''date_of_birth'' ''Invalid value'' (body req)) \<and>
        dod = fst (date_chain e ''date_of_death'' ''Invalid value'' (body req)) \<and>
        errors =
          snd (name_chain ''first_name'' ''First name must be specified.''
                 ''First name has non-alphanumeric characters.'' (body req)) @
          snd (name_chain ''family_name'' ''Family name must be specified.''
                 ''Family name has non-alphanumeric characters.'' (body req)) @
          snd (date_chain e ''date_of_birth'' ''Invalid value'' (body req)) @
          snd (date_chain e ''date_of_death'' ''Invalid value'' (body req))) \<and>
   (case bookinstance_chains e ireq of
      (bk, im, stat, due, errors) \<Rightarrow>
        due = fst (date_chain e ''due_back'' ''Invalid date'' (body ireq)) \<and>
        errors =
          snd (text_chain ''book'' ''Book must be specified'' (body ireq)) @
          snd (text_chain ''imprint'' ''Imprint must be specified'' (body ireq)) @
          snd (date_chain e ''due_back'' ''Invalid date'' (body ireq))) \<and>
   date_of_birth (new_Author i fn' ln' dob' dod') = cast_date dob' \<and>
   date_of_death (new_Author i fn' ln' dob' dod') = cast_date dod' \<and>
   due_back (new_BookInstance e i bk' im' stat' due') =
     with_default (Date_now_at_load e) (cast_date due') \<and>
   due_back (new_BookInstance e i bk' im' stat' Absent) = Val (Date_now_at_load e) \<and>
   (author_chains e areq = (afn, aln, adob, adod, []) \<and>
    findOne (\<lambda>x. first_name x = afn \<and> family_name x = aln) (authors ast) = None \<and>
    findOne (\<lambda>x. author_id x = af) (authors ast) = None \<longrightarrow>
      fst (author_create_post e af areq ast) =
        ast\<lparr>authors := authors ast @ [new_Author af afn aln adob adod]\<rparr>) \<and>
   (bookinstance_chains e creq = (cbk, cim, cstat, cdue, []) \<and>
    castObjectId e cbk \<noteq> None \<and>
    cstat \<in> set [''Available'', ''Maintenance'', ''Loaned'', ''Reserved''] \<and>
    findOne (\<lambda>x. bookinstance_id x = cf) (bookinstances cst) = None \<longrightarrow>
      fst (bookinstance_create_post e cf creq cst) =
        cst\<lparr>bookinstances := bookinstances cst @
               [new_BookInstance e cf cbk cim (Some cstat) cdue]\<rparr>)"
proof -
  have c1: "b1 f1 = Some [] \<longrightarrow>
      date_chain e f1 m1 b1 = (EmptyString, []) \<and> cast_date EmptyString = Null \<and>
      with_default d1 (Null :: date path) = Null"
    by (simp add: date_chain_def cast_date_def with_default_def)
  have c2: "b2 f2 = None \<longrightarrow>
      date_chain e f2 m2 b2 = (Absent, []) \<and> cast_date Absent = Missing"
    by (simp add: date_chain_def cast_date_def)
  have c3: "b3 f3 = Some s3 \<and> s3 \<noteq> [] \<and> \<not> isISO8601 e s3 \<longrightarrow>
      snd (date_chain e f3 m3 b3) = [\<lparr>err_path = f3, err_msg = m3, err_value = s3\<rparr>]"
    by (simp add: date_chain_def check_def)
  have c4: "b4 f4 = Some s4 \<and> s4 \<noteq> [] \<and> isISO8601 e s4 \<longrightarrow>
      snd (date_chain e f4 m4 b4) = [] \<and>
      cast_date (fst (date_chain e f4 m4 b4)) =
        (case toDate e s4 of None \<Rightarrow> Null | Some t \<Rightarrow> Val t) \<and>
      with_default d4 (cast_date (fst (date_chain e f4 m4 b4))) =
        cast_date (fst (date_chain e f4 m4 b4))"
    by (simp add: date_chain_def check_def cast_date_def with_default_def split: option.splits)
  have c5: "case author_chains e req of
      (fn, ln, dob, dod, errors) \<Rightarrow>
        dob = fst (date_chain e ''date_of_birth'' ''Invalid value'' (body req)) \<and>
        dod = fst (date_chain e ''date_of_death'' ''Invalid value'' (body req)) \<and>
        errors =
          snd (name_chain ''first_name'' ''First name must be specified.''
                 ''First name has non-alphanumeric characters.'' (body req)) @
          snd (name_chain ''family_name'' ''Family name must be specified.''
                 ''Family name has non-alphanumeric characters.'' (body req)) @
          snd (date_chain e ''date_of_birth'' ''Invalid value'' (body req)) @
          snd (date_chain e ''date_of_death'' ''Invalid value'' (body req))"
    by (simp add: author_chains_def Let_def split: prod.splits)
  have c6: "case bookinstance_chains e ireq of
      (bk, im, stat, due, errors) \<Rightarrow>
        due = fst (date_chain e ''due_back'' ''Invalid date'' (body ireq)) \<and>
        errors =
          snd (text_chain ''book'' ''Book must be specified'' (body ireq)) @
          snd (text_chain ''imprint'' ''Imprint must be specified'' (body ireq)) @
          snd (date_chain e ''due_back'' ''Invalid date'' (body ireq))"
    by (simp add: bookinstance_chains_def Let_def split: prod.splits)
  have c7: "date_of_birth (new_Author i fn' ln' dob' dod') = cast_date dob' \<and>
   date_of_death (new_Author i fn' ln' dob' dod') = cast_date dod' \<and>
   due_back (new_BookInstance e i bk' im' stat' due') =
     with_default (Date_now_at_load e) (cast_date due') \<and>
   due_back (new_BookInstance e i bk' im' stat' Absent) = Val (Date_now_at_load e)"
    by (simp add: new_Author_def new_BookInstance_def cast_date_def with_default_def)
  have c8: "author_chains e areq = (afn, aln, adob, adod, []) \<and>
    findOne (\<lambda>x. first_name x = afn \<and> family_name x = aln) (authors ast) = None \<and>
    findOne (\<lambda>x. author_id x = af) (authors ast) = None \<longrightarrow>
      fst (author_create_post e af areq ast) =
        ast\<lparr>authors := authors ast @ [new_Author af afn aln adob adod]\<rparr>"
    by (simp add: author_create_new)
  have c9: "bookinstance_chains e creq = (cbk, cim, cstat, cdue, []) \<and>
    castObjectId e cbk \<noteq> None \<and>
    cstat \<in> set [''Available'', ''Maintenance'', ''Loaned'', ''Reserved''] \<and>
    findOne (\<lambda>x. bookinstance_id x = cf) (bookinstances cst) = None \<longrightarrow>
      fst (bookinstance_create_post e cf creq cst) =
        cst\<lparr>bookinstances := bookinstances cst @
               [new_BookInstance e cf cbk cim (Some cstat) cdue]\<rparr>"
    using bookinstance_create_new [of e creq cbk cim cstat cdue cf cst] by simp
  show ?thesis
    by (intro conjI;
        (rule c1 | rule c2 | rule c3 | rule c4 | rule c5 | rule c6 | rule c8 | rule c9 |
         rule c7 [THEN conjunct1] | rule c7 [THEN conjunct2, THEN conjunct1] |
         rule c7 [THEN conjunct2, THEN conjunct2, THEN conjunct1] |
         rule c7 [THEN conjunct2, THEN conjunct2, THEN conjunct2]))
qed

theorem date_fields_witness:
  "author_create_post example_env id_a3
     (form [] [(''first_name'', ''Jane''), (''family_name'', ''Austen''),
               (''date_of_birth'', ''not-a-date''), (''date_of_death'', [])]) example_store =
     (example_store,
      [Render ''author_form''
         (author_form_locals ''Create Author''
            \<lparr>author_id = id_a3, first_name = ''Jane'', family_name = ''Austen'',
             date_of_birth = Null, date_of_death = Null\<rparr>
            [\<lparr>err_path = ''date_of_birth'', err_msg = ''Invalid value'',
              err_value = ''not-a-date''\<rparr>])]) \<and>
   date_chain example_env ''date_of_death'' ''Invalid value''
     [''date_of_birth'' \<mapsto> ''not-a-date'', ''date_of_death'' \<mapsto> []] = (EmptyString, []) \<and>
   date_chain example_env ''date_of_death'' ''Invalid value''
     [''date_of_birth'' \<mapsto> ''not-a-date''] = (Absent, []) \<and>
   snd (date_chain example_env ''date_of_birth'' ''Invalid value''
     [''date_of_birth'' \<mapsto> ''not-a-date'']) =
     [\<lparr>err_path = ''date_of_birth'', err_msg = ''Invalid value'', err_value = ''not-a-date''\<rparr>] \<and>
   snd (date_chain example_env ''due_back'' ''Invalid date'' [''due_back'' \<mapsto> ''2024-05-01'']) = [] \<and>
   cast_date (fst (date_chain example_env ''due_back'' ''Invalid date''
     [''due_back'' \<mapsto> ''2024-05-01''])) = Val 1714521600000 \<and>
   fst (author_create_post example_env id_a3
     (form [] [(''first_name'', ''Jane''), (''family_name'', ''Austen''),
               (''date_of_death'', [])]) example_store) =
     example_store\<lparr>authors := authors example_store @
       [\<lparr>author_id = id_a3, first_name = ''Jane'', family_name = ''Austen'',
         date_of_birth = Missing, date_of_death = Null\<rparr>]\<rparr> \<and>
   fst (bookinstance_create_post example_env id_c3
     (form [] [(''book'', id_b1), (''imprint'', ''Imp''), (''status'', ''Available''),
               (''due_back'', ''2024-05-01'')]) example_store) =
     example_store\<lparr>bookinstances := bookinstances example_store @
       [\<lparr>bookinstance_id = id_c3, book = Some id_b1, imprint = ''Imp'',
         status = ''Available'', due_back = Val 1714521600000\<rparr>]\<rparr>"
proof -
  let ?b = "[''date_of_birth'' \<mapsto> ''not-a-date'', ''date_of_death'' \<mapsto> []]"
  let ?b' = "[''date_of_birth'' \<mapsto> ''not-a-date'']"
  let ?d = "[''due_back'' \<mapsto> ''2024-05-01'']"
  let ?ra = "form [] [(''first_name'', ''Jane''), (''family_name'', ''Austen''),
               (''date_of_birth'', ''not-a-date''), (''date_of_death'', [])]"
  let ?rc = "form [] [(''first_name'', ''Jane''), (''family_name'', ''Austen''),
               (''date_of_death'', [])]"
  let ?ri = "form [] [(''book'', id_b1), (''imprint'', ''Imp''), (''status'', ''Available''),
               (''due_back'', ''2024-05-01'')]"
  have h1: "?b ''date_of_death'' = Some []" by simp
  have h2: "?b' ''date_of_death'' = None" by simp
  have h3: "?b' ''date_of_birth'' = Some ''not-a-date'' \<and> ''not-a-date'' \<noteq> [] \<and>
            \<not> isISO8601 example_env ''not-a-date''"
    by (simp add: example_env_def)
  have h4: "?d ''due_back'' = Some ''2024-05-01'' \<and> ''2024-05-01'' \<noteq> [] \<and>
            isISO8601 example_env ''2024-05-01''"
    by (simp add: example_env_def)
  have t: "toDate example_env ''2024-05-01'' = Some 1714521600000"
    by (simp add: example_env_def)
  have r: "author_create_post example_env id_a3 ?ra example_store =
     (example_store,
      [Render ''author_form''
         (author_form_locals ''Create Author''
            \<lparr>author_id = id_a3, first_name = ''Jane'', family_name = ''Austen'',
             date_of_birth = Null, date_of_death = Null\<rparr>
            [\<lparr>err_path = ''date_of_birth'', err_msg = ''Invalid value'',
              err_value = ''not-a-date''\<rparr>])])"
    by (simp add: author_create_post_def author_chains_def form_def chain_defs example_env_def
        new_Author_def cast_date_def)
  have h5: "author_chains example_env ?rc = (''Jane'', ''Austen'', Absent, EmptyString, []) \<and>
    findOne (\<lambda>x. first_name x = ''Jane'' \<and> family_name x = ''Austen'')
      (authors example_store) = None \<and>
    findOne (\<lambda>x. author_id x = id_a3) (authors example_store) = None"
    by (simp add: author_chains_def form_def chain_defs example_store_def findOne_def)
  have h6: "bookinstance_chains example_env ?ri =
      (id_b1, ''Imp'', ''Available'', ADate 1714521600000, []) \<and>
    castObjectId example_env id_b1 \<noteq> None \<and>
    ''Available'' \<in> set [''Available'', ''Maintenance'', ''Loaned'', ''Reserved''] \<and>
    findOne (\<lambda>x. bookinstance_id x = id_c3) (bookinstances example_store) = None"
    by (simp add: bookinstance_chains_def form_def chain_defs example_defs example_store_def
        findOne_def)
  have n1: "new_Author id_a3 ''Jane'' ''Austen'' Absent EmptyString =
      \<lparr>author_id = id_a3, first_name = ''Jane'', family_name = ''Austen'',
         date_of_birth = Missing, date_of_death = Null\<rparr>"
    by (simp add: new_Author_def cast_date_def)
  have n2: "new_BookInstance example_env id_c3 id_b1 ''Imp'' (Some ''Available'')
      (ADate 1714521600000) =
      \<lparr>bookinstance_id = id_c3, book = Some id_b1, imprint = ''Imp'',
         status = ''Available'', due_back = Val 1714521600000\<rparr>"
    by (simp add: new_BookInstance_def cast_date_def with_default_def example_defs)
  note th = date_fields [where ?b1.0 = ?b and ?f1.0 = "''date_of_death''" and e = example_env
      and ?m1.0 = "''Invalid value''" and ?d1.0 = 1700000000000
      and ?b2.0 = ?b' and ?f2.0 = "''date_of_death''" and ?m2.0 = "''Invalid value''"
      and ?b3.0 = ?b' and ?f3.0 = "''date_of_birth''" and ?s3.0 = "''not-a-date''"
      and ?m3.0 = "''Invalid value''"
      and ?b4.0 = ?d and ?f4.0 = "''due_back''" and ?s4.0 = "''2024-05-01''"
      and ?m4.0 = "''Invalid date''" and ?d4.0 = 1700000000000
      and req = ?ra and ireq = ?ri and i = id_a3 and fn' = "''Jane''" and ln' = "''Austen''"
      and dob' = NullDate and dod' = EmptyString and bk' = id_b1 and im' = "''Imp''"
      and stat' = "Some ''Available''" and due' = "ADate 1714521600000"
      and areq = ?rc and afn = "''Jane''" and aln = "''Austen''" and adob = Absent
      and adod = EmptyString and ast = example_store and af = id_a3
      and creq = ?ri and cbk = id_b1 and cim = "''Imp''" and cstat = "''Available''"
      and cdue = "ADate 1714521600000" and cst = example_store and cf = id_c3]
  from th h1 have p1: "date_chain example_env ''date_of_death'' ''Invalid value'' ?b =
      (EmptyString, [])"
    by blast
  from th h2 have p2: "date_chain example_env ''date_of_death'' ''Invalid value'' ?b' =
      (Absent, [])"
    by blast
  from th h3 have p3: "snd (date_chain example_env ''date_of_birth'' ''Invalid value'' ?b') =
      [\<lparr>err_path = ''date_of_birth'', err_msg = ''Invalid value'',
        err_value = ''not-a-date''\<rparr>]"
    by blast
  from th h4 have p4: "snd (date_chain example_env ''due_back'' ''Invalid date'' ?d) = [] \<and>
      cast_date (fst (date_chain example_env ''due_back'' ''Invalid date'' ?d)) =
        (case toDate example_env ''2024-05-01'' of None \<Rightarrow> Null | Some t \<Rightarrow> Val t)"
    by blast
  from th h5 have p5: "fst (author_create_post example_env id_a3 ?rc example_store) =
      example_store\<lparr>authors := authors example_store @
        [new_Author id_a3 ''Jane'' ''Austen'' Absent EmptyString]\<rparr>"
    by blast
  from th h6 have p6: "fst (bookinstance_create_post example_env id_c3 ?ri example_store) =
      example_store\<lparr>bookinstances := bookinstances example_store @
        [new_BookInstance example_env id_c3 id_b1 ''Imp'' (Some ''Available'')
           (ADate 1714521600000)]\<rparr>"
    by blast
  from p1 p2 p3 p4 p5 p6 t r n1 n2 show ?thesis by simp
qed

section \<open>Updates of missing documents\<close>

text \<open>
  Claim C6, as stated, at an update POST that passes validation and whose path
  identifier is on no stored document and does not cast to an ObjectId: the overwrite is
  rejected with a cast error, which is what reaches \<^verbatim>\<open>next\<close>; no \<^verbatim>\<open>null\<close> result is read.
\<close>

theorem update_wrong_id_counterexample:
  "author_chains example_env
     (form ''not an object id'' [(''first_name'', ''Jane''), (''family_name'', ''Austen'')]) =
     (''Jane'', ''Austen'', Absent, Absent, []) \<and>
   findOne (\<lambda>d. author_id d = ''not an object id'') (authors example_store) = None \<and>
   author_update_post example_env id_a4
     (form ''not an object id'' [(''first_name'', ''Jane''), (''family_name'', ''Austen'')])
     example_store =
     (example_store, [Next (CastError ''not an object id'')]) \<and>
   snd (author_update_post example_env id_a4
     (form ''not an object id'' [(''first_name'', ''Jane''), (''family_name'', ''Austen'')])
     example_store) \<noteq> [Next (TypeError ''Cannot read properties of null (reading url)'')]"
proof -
  let ?r = "form ''not an object id'' [(''first_name'', ''Jane''), (''family_name'', ''Austen'')]"
  have h1: "author_chains example_env ?r = (''Jane'', ''Austen'', Absent, Absent, [])"
    by (simp add: author_chains_def form_def chain_defs)
  have h2: "findOne (\<lambda>d. author_id d = ''not an object id'') (authors example_store) = None"
    by (simp add: example_store_def findOne_def)
  have h3: "castObjectId example_env (params_id ?r) = None"
    by (simp add: form_def example_defs)
  have h4: "author_update_post example_env id_a4 ?r example_store =
      (example_store, [Next (CastError (params_id ?r))])"
    by (simp add: author_update_post_def h1 findByIdAndUpdate_def h3)
  have p: "params_id ?r = ''not an object id''" by (simp add: form_def)
  from h1 h2 h4 p show ?thesis by simp
qed

text \<open>
  Claim C6, amended. An update POST that passes validation and whose path identifier
  casts to an ObjectId that is on no stored document: the overwrite answers \<^verbatim>\<open>null\<close> and
  leaves the collection as it was, the handler reads \<^verbatim>\<open>url\<close> of that result, and the error
  handed on is the type error of that access, not an error with status 404. When the
  path identifier does not cast, the overwrite is rejected and its cast error is handed
  on instead. The store is returned as it was in both cases.
\<close>

theorem update_missing:
  "(author_chains e req = (fn, ln, dob, dod, []) \<and>
    findById e author_id (params_id req) (authors st) = Inr None \<longrightarrow>
      findByIdAndUpdate e author_id Author_update (params_id req)
        (new_Author (cast_id e fresh (params_id req)) fn ln dob dod) (authors st) =
        Inr (None, authors st) \<and>
      author_update_post e fresh req st =
        (st, [Next (TypeError ''Cannot read properties of null (reading url)'')])) \<and>
   (book_update_chains breq = (t, a, s, n, g, []) \<and>
    findById e book_id (params_id breq) (books bst) = Inr None \<longrightarrow>
      findByIdAndUpdate e book_id Book_update (params_id breq)
        (new_Book e (cast_id e fresh (params_id breq)) t a s n g) (books bst) =
        Inr (None, books bst) \<and>
      book_update_post e fresh breq bst =
        (bst, [Next (TypeError ''Cannot read properties of null (reading url)'')])) \<and>
   (bookinstance_chains e ireq = (bk, im, stat, due, []) \<and>
    findById e bookinstance_id (params_id ireq) (bookinstances ist) = Inr None \<longrightarrow>
      findByIdAndUpdate e bookinstance_id BookInstance_update (params_id ireq)
        (new_BookInstance e (cast_id e fresh (params_id ireq)) bk im (Some stat) due)
        (bookinstances ist) = Inr (None, bookinstances ist) \<and>
      bookinstance_update_post e fresh ireq ist =
        (ist, [Next (TypeError ''Cannot read properties of null (reading url)'')])) \<and>
   (author_chains e req' = (fn', ln', dob', dod', []) \<and>
    castObjectId e (params_id req') = None \<longrightarrow>
      author_update_post e fresh req' st' = (st', [Next (CastError (params_id req'))])) \<and>
   (book_update_chains breq' = (t', a', s', n', g', []) \<and>
    castObjectId e (params_id breq') = None \<longrightarrow>
      book_update_post e fresh breq' bst' = (bst', [Next (CastError (params_id breq'))])) \<and>
   (bookinstance_chains e ireq' = (bk', im', stat', due', []) \<and>
    castObjectId e (params_id ireq') = None \<longrightarrow>
      bookinstance_update_post e fresh ireq' ist' =
        (ist', [Next (CastError (params_id ireq'))]))"
  by (auto simp: author_update_post_def book_update_post_def bookinstance_update_post_def
      findByIdAndUpdate_def findById_def split: option.splits)

theorem update_missing_witness:
  "author_update_post example_env id_a4
     (form id_ff [(''first_name'', ''Jane''), (''family_name'', ''Austen'')]) example_store =
     (example_store, [Next (TypeError ''Cannot read properties of null (reading url)'')]) \<and>
   book_update_post example_env id_a4
     (form id_ff [(''title'', ''Emma''), (''author'', id_a1), (''summary'', ''S''), (''isbn'', ''123'')])
     example_store =
     (example_store, [Next (TypeError ''Cannot read properties of null (reading url)'')]) \<and>
   bookinstance_update_post example_env id_a4
     (form id_ff [(''book'', id_b1), (''imprint'', ''Imp''), (''status'', ''Available''),
                   (''due_back'', ''2024-05-01'')]) example_store =
     (example_store, [Next (TypeError ''Cannot read properties of null (reading url)'')]) \<and>
   author_update_post example_env id_a4
     (form ''abc'' [(''first_name'', ''Jane''), (''family_name'', ''Austen'')]) example_store =
     (example_store, [Next (CastError ''abc'')]) \<and>
   book_update_post example_env id_a4
     (form ''abc'' [(''title'', ''Emma''), (''author'', id_a1), (''summary'', ''S''), (''isbn'', ''123'')])
     example_store =
     (example_store, [Next (CastError ''abc'')]) \<and>
   bookinstance_update_post example_env id_a4
     (form ''abc'' [(''book'', id_b1), (''imprint'', ''Imp''), (''status'', ''Available''),
                   (''due_back'', ''2024-05-01'')]) example_store =
     (example_store, [Next (CastError ''abc'')])"
proof -
  let ?fa = "[(''first_name'', ''Jane''), (''family_name'', ''Austen'')]"
  let ?fb = "[(''title'', ''Emma''), (''author'', id_a1), (''summary'', ''S''), (''isbn'', ''123'')]"
  let ?fi = "[(''book'', id_b1), (''imprint'', ''Imp''), (''status'', ''Available''),
               (''due_back'', ''2024-05-01'')]"
  have h1: "author_chains example_env (form i ?fa) = (''Jane'', ''Austen'', Absent, Absent, [])"
    for i
    by (simp add: author_chains_def form_def chain_defs)
  have h3: "book_update_chains (form i ?fb) = (''Emma'', id_a1, ''S'', ''123'', [], [])" for i
    by (simp add: book_update_chains_def form_def chain_defs genre_to_array_def)
  have h5: "bookinstance_chains example_env (form i ?fi) =
              (id_b1, ''Imp'', ''Available'', ADate 1714521600000, [])" for i
    by (simp add: bookinstance_chains_def form_def chain_defs example_env_def)
  have h2: "findById example_env author_id (params_id (form id_ff ?fa)) (authors example_store) =
              Inr None"
    by (simp add: form_def example_store_def findById_def findOne_def example_defs)
  have h4: "findById example_env book_id (params_id (form id_ff ?fb)) (books example_store) =
              Inr None"
    by (simp add: form_def example_store_def findById_def findOne_def example_defs)
  have h6: "findById example_env bookinstance_id (params_id (form id_ff ?fi))
              (bookinstances example_store) = Inr None"
    by (simp add: form_def example_store_def findById_def findOne_def example_defs)
  have c: "castObjectId example_env (params_id (form ''abc'' kvs)) = None" for kvs
    by (simp add: form_def example_defs)
  have p: "params_id (form ''abc'' kvs) = ''abc''" for kvs
    by (simp add: form_def)
  note th = update_missing [where e = example_env and fresh = id_a4
      and req = "form id_ff ?fa" and fn = "''Jane''" and ln = "''Austen''" and dob = Absent
      and dod = Absent and st = example_store
      and breq = "form id_ff ?fb" and t = "''Emma''" and a = id_a1 and s = "''S''"
      and n = "''123''" and g = "[]" and bst = example_store
      and ireq = "form id_ff ?fi" and bk = id_b1 and im = "''Imp''" and stat = "''Available''"
      and due = "ADate 1714521600000" and ist = example_store
      and req' = "form ''abc'' ?fa" and fn' = "''Jane''" and ln' = "''Austen''" and dob' = Absent
      and dod' = Absent and st' = example_store
      and breq' = "form ''abc'' ?fb" and t' = "''Emma''" and a' = id_a1 and s' = "''S''"
      and n' = "''123''" and g' = "[]" and bst' = example_store
      and ireq' = "form ''abc'' ?fi" and bk' = id_b1 and im' = "''Imp''"
      and stat' = "''Available''" and due' = "ADate 1714521600000" and ist' = example_store]
  from th h1 h2 h3 h4 h5 h6 c show ?thesis
    unfolding p by blast
qed

section \<open>Order of the lists\<close>

text \<open>
  Claim C7, as stated, at the example store: the author list comes out as ``Ann Zed''
  before ``Ann Abe'', which is not ascending by name, and the list of book instances comes
  out in the order of the collection, ascending neither by the title of the book nor by
  imprint nor by identifier.
\<close>

theorem lists_order_counterexample:
  "author_list example_store =
     (example_store,
      [Render ''author_list''
         (author_list_locals ''Author List''
            [\<lparr>author_id = id_a1, first_name = ''Ann'', family_name = ''Zed'',
              date_of_birth = Missing, date_of_death = Missing\<rparr>,
             \<lparr>author_id = id_a2, first_name = ''Ann'', family_name = ''Abe'',
              date_of_birth = Val 0, date_of_death = Null\<rparr>])]) \<and>
   \<not> sorted (map Author_name
        [\<lparr>author_id = id_a1, first_name = ''Ann'', family_name = ''Zed'',
          date_of_birth = Missing, date_of_death = Missing\<rparr>,
         \<lparr>author_id = id_a2, first_name = ''Ann'', family_name = ''Abe'',
          date_of_birth = Val 0, date_of_death = Null\<rparr>]) \<and>
   bookinstance_list example_env example_store =
     (example_store,
      [Render ''bookinstance_list''
         (bookinstance_list_locals ''Book Instance List''
            [(\<lparr>bookinstance_id = id_c2, book = Some id_b2, imprint = ''Zed Press'',
               status = ''Loaned'', due_back = Val 1714521600000\<rparr>,
              Some \<lparr>book_id = id_b2, title = ''Zebra'', author = Some id_a1, summary = ''S2'',
                    isbn = ''222'', genre = [id_e1]\<rparr>),
             (\<lparr>bookinstance_id = id_c1, book = Some id_b1, imprint = ''Abe Press'',
               status = ''Available'', due_back = Null\<rparr>,
              Some \<lparr>book_id = id_b1, title = ''Apple'', author = Some id_a1, summary = ''S1'',
                    isbn = ''111'', genre = []\<rparr>)])]) \<and>
   \<not> sorted [''Zebra'', ''Apple''] \<and>
   \<not> sorted [''Zed Press'', ''Abe Press''] \<and>
   \<not> sorted [id_c2, id_c1]"
  by (simp add: author_list_def bookinstance_list_def populate_book_def example_store_def
      Author_name_def findOne_def BookInstance_hydrate_def with_default_def)

text \<open>
  Claim C7, amended. The author list is a rearrangement of the stored authors,
  ascending by first name; the book list is a rearrangement of the stored books, ascending
  by title; the list of book instances is the collection in its own order.
\<close>

theorem lists_order:
  "(\<exists>xs. author_list st = (st, [Render ''author_list'' (author_list_locals ''Author List'' xs)]) \<and>
         sorted (map first_name xs) \<and> mset xs = mset (authors st)) \<and>
   (\<exists>ys. book_list st = (st, [Render ''book_list'' (book_list_locals ''Book List'' ys)]) \<and>
         sorted (map (\<lambda>(i, t, a). t) ys) \<and>
         mset (map (\<lambda>(i, t, a). (i, t)) ys) = mset (map (\<lambda>b. (book_id b, title b)) (books st))) \<and>
   bookinstance_list e st =
     (st, [Render ''bookinstance_list''
             (bookinstance_list_locals ''Book Instance List''
                (map (populate_book e st) (bookinstances st)))]) \<and>
   map (bookinstance_id \<circ> fst) (map (populate_book e st) (bookinstances st)) =
     map bookinstance_id (bookinstances st)"
proof (intro conjI)
  show "\<exists>xs. author_list st = (st, [Render ''author_list'' (author_list_locals ''Author List'' xs)]) \<and>
         sorted (map first_name xs) \<and> mset xs = mset (authors st)"
    by (simp add: author_list_def)
next
  let ?ys = "map (\<lambda>b. (book_id b, title b, populate_author st b)) (sort_key title (books st))"
  have a: "map (\<lambda>(i, t, a). t) ?ys = map title (sort_key title (books st))"
    by (simp add: comp_def)
  have b: "map (\<lambda>(i, t, a). (i, t)) ?ys = map (\<lambda>b. (book_id b, title b)) (sort_key title (books st))"
    by (simp add: comp_def)
  have c: "sorted (map (\<lambda>(i, t, a). t) ?ys)"
    unfolding a by simp
  have d: "mset (map (\<lambda>(i, t, a). (i, t)) ?ys) = mset (map (\<lambda>b. (book_id b, title b)) (books st))"
    unfolding b by simp
  have "book_list st = (st, [Render ''book_list'' (book_list_locals ''Book List'' ?ys)])"
    by (simp add: book_list_def)
  with c d have "book_list st = (st, [Render ''book_list'' (book_list_locals ''Book List'' ?ys)]) \<and>
         sorted (map (\<lambda>(i, t, a). t) ?ys) \<and>
         mset (map (\<lambda>(i, t, a). (i, t)) ?ys) = mset (map (\<lambda>b. (book_id b, title b)) (books st))"
    by blast
  then show "\<exists>ys. book_list st = (st, [Render ''book_list'' (book_list_locals ''Book List'' ys)]) \<and>
         sorted (map (\<lambda>(i, t, a). t) ys) \<and>
         mset (map (\<lambda>(i, t, a). (i, t)) ys) = mset (map (\<lambda>b. (book_id b, title b)) (books st))"
    by blast
next
  show "bookinstance_list e st =
     (st, [Render ''bookinstance_list''
             (bookinstance_list_locals ''Book Instance List''
                (map (populate_book e st) (bookinstances st)))])"
    by (simp add: bookinstance_list_def)
next
  show "map (bookinstance_id \<circ> fst) (map (populate_book e st) (bookinstances st)) =
     map bookinstance_id (bookinstances st)"
    by (simp add: populate_book_def BookInstance_hydrate_def comp_def)
qed

section \<open>The default of due_back\<close>

text \<open>
  Claim C8. What the code does where the claim expects the time of creation: a book
  instance built without \<^verbatim>\<open>due_back\<close> takes the value \<^verbatim>\<open>Date.now()\<close> had when the schema
  was defined, and one built from the empty string has no date; two instances created one
  after the other from bodies without \<^verbatim>\<open>due_back\<close> are stored with the same date.
\<close>

theorem due_back_default_fixed:
  "due_back (new_BookInstance e i bk im stat Absent) = Val (Date_now_at_load e) \<and>
   due_back (new_BookInstance e i bk im stat EmptyString) = Null \<and>
   (case bookinstance_create_post example_env id_c3
           (form [] [(''book'', id_b1), (''imprint'', ''Imp''), (''status'', ''Available'')])
           example_store of
      (st1, r1) \<Rightarrow>
        case bookinstance_create_post example_env id_c4
               (form [] [(''book'', id_b2), (''imprint'', ''Imp2''), (''status'', ''Loaned'')])
               st1 of
          (st2, r2) \<Rightarrow>
            map due_back (bookinstances st2) =
              [Val 1714521600000, Null, Val 1700000000000, Val 1700000000000] \<and>
            r1 = [Redirect ''/catalog/bookinstance/0000000000000000000000c3''] \<and>
            r2 = [Redirect ''/catalog/bookinstance/0000000000000000000000c4''])"
  by (simp add: new_BookInstance_def cast_date_def with_default_def bookinstance_create_post_def
      bookinstance_chains_def form_def chain_defs save_def BookInstance_validate_def
      BookInstance_url_def example_defs example_store_def findOne_def)

section \<open>Deletion of a book instance\<close>

text \<open>
  Claim C9, as stated, at a delete POST whose \<^verbatim>\<open>bookinstanceid\<close> is blank: the chain
  reports an error and the handler redirects; the removal is called with the empty
  string, is rejected with a cast error that goes to \<^verbatim>\<open>next\<close>, and removes nothing; the
  redirect after the removal is not reached.
\<close>

theorem bookinstance_delete_counterexample:
  "snd (id_chain ''bookinstanceid'' ''Book Instance is required''
          (body (form id_c1 [(''bookinstanceid'', ''  '')]))) =
     [\<lparr>err_path = ''bookinstanceid'', err_msg = ''Book Instance is required'', err_value = []\<rparr>] \<and>
   bookinstance_delete_post example_env (form id_c1 [(''bookinstanceid'', ''  '')]) example_store =
     (example_store, [Redirect ''/catalog/bookinstances'', Next (CastError [])]) \<and>
   bookinstances (fst (bookinstance_delete_post example_env
     (form id_c1 [(''bookinstanceid'', ''  '')]) example_store)) = bookinstances example_store \<and>
   last (snd (bookinstance_delete_post example_env
     (form id_c1 [(''bookinstanceid'', ''  '')]) example_store)) \<noteq>
     Redirect ''/catalog/bookinstances''"
  by (simp add: bookinstance_delete_post_def findByIdAndRemove_def form_def chain_defs
      example_defs)

text \<open>
  Claim C9, amended. A delete POST for a book instance looks up no dependents and
  calls the removal with the trimmed \<^verbatim>\<open>bookinstanceid\<close> whether or not the chain on the
  field reported an error (after a redirect when it did). When the field passes and
  casts to an ObjectId, the first document with that identifier is removed (then none
  has it, where the identifiers of the collection are distinct) and the handler redirects
  to the list. When the chain reports an error the trimmed field is empty; where the
  driver does not cast the empty string, the removal is rejected, nothing is removed, and
  the cast error follows the redirect. When the field passes and does not cast, the
  cast error is all the handler gives.
\<close>

theorem bookinstance_delete_outcomes:
  "bookinstance_delete_post e req st =
     (let i = trim (toString (body req ''bookinstanceid''));
          r1 = (if isLength 1 None i then [] else [Redirect ''/catalog/bookinstances''])
      in case castObjectId e i of
           None \<Rightarrow> (st, r1 @ [Next (CastError i)])
         | Some k \<Rightarrow>
             (st\<lparr>bookinstances := removeOne (\<lambda>d. bookinstance_id d = k) (bookinstances st)\<rparr>,
              r1 @ [Redirect ''/catalog/bookinstances''])) \<and>
   (isLength 1 None (trim (toString (body req1 ''bookinstanceid''))) \<and>
    castObjectId e (trim (toString (body req1 ''bookinstanceid''))) = Some k1 \<longrightarrow>
      bookinstance_delete_post e req1 st1 =
        (st1\<lparr>bookinstances :=
               removeOne (\<lambda>d. bookinstance_id d = k1) (bookinstances st1)\<rparr>,
         [Redirect ''/catalog/bookinstances''])) \<and>
   (isLength 1 None (trim (toString (body req1 ''bookinstanceid''))) \<and>
    castObjectId e (trim (toString (body req1 ''bookinstanceid''))) = Some k1 \<and>
    distinct (map bookinstance_id (bookinstances st1)) \<longrightarrow>
      findOne (\<lambda>d. bookinstance_id d = k1)
        (bookinstances (fst (bookinstance_delete_post e req1 st1))) = None) \<and>
   (\<not> isLength 1 None (trim (toString (body req2 ''bookinstanceid''))) \<longrightarrow>
      trim (toString (body req2 ''bookinstanceid'')) = []) \<and>
   (\<not> isLength 1 None (trim (toString (body req2 ''bookinstanceid''))) \<and>
    castObjectId e [] = None \<longrightarrow>
      bookinstance_delete_post e req2 st2 =
        (st2, [Redirect ''/catalog/bookinstances'', Next (CastError [])])) \<and>
   (isLength 1 None (trim (toString (body req3 ''bookinstanceid''))) \<and>
    castObjectId e (trim (toString (body req3 ''bookinstanceid''))) = None \<longrightarrow>
      bookinstance_delete_post e req3 st3 =
        (st3, [Next (CastError (trim (toString (body req3 ''bookinstanceid''))))]))"
proof -
  have eq: "bookinstance_delete_post e r s =
     (let i = trim (toString (body r ''bookinstanceid''));
          r1 = (if isLength 1 None i then [] else [Redirect ''/catalog/bookinstances''])
      in case castObjectId e i of
           None \<Rightarrow> (s, r1 @ [Next (CastError i)])
         | Some k \<Rightarrow>
             (s\<lparr>bookinstances := removeOne (\<lambda>d. bookinstance_id d = k) (bookinstances s)\<rparr>,
              r1 @ [Redirect ''/catalog/bookinstances'']))" for r s
    by (simp add: bookinstance_delete_post_def id_chain_def check_def findByIdAndRemove_def
        Let_def split: option.splits)
  have c2: "isLength 1 None (trim (toString (body req1 ''bookinstanceid''))) \<and>
    castObjectId e (trim (toString (body req1 ''bookinstanceid''))) = Some k1 \<longrightarrow>
      bookinstance_delete_post e req1 st1 =
        (st1\<lparr>bookinstances :=
               removeOne (\<lambda>d. bookinstance_id d = k1) (bookinstances st1)\<rparr>,
         [Redirect ''/catalog/bookinstances''])"
    by (simp add: eq)
  have c3: "isLength 1 None (trim (toString (body req1 ''bookinstanceid''))) \<and>
    castObjectId e (trim (toString (body req1 ''bookinstanceid''))) = Some k1 \<and>
    distinct (map bookinstance_id (bookinstances st1)) \<longrightarrow>
      findOne (\<lambda>d. bookinstance_id d = k1)
        (bookinstances (fst (bookinstance_delete_post e req1 st1))) = None"
    by (simp add: eq findOne_removeOne)
  have c4: "\<not> isLength 1 None (trim (toString (body req2 ''bookinstanceid''))) \<longrightarrow>
      trim (toString (body req2 ''bookinstanceid'')) = []"
    by (simp add: id_chain_invalid)
  have c5: "\<not> isLength 1 None (trim (toString (body req2 ''bookinstanceid''))) \<and>
    castObjectId e [] = None \<longrightarrow>
      bookinstance_delete_post e req2 st2 =
        (st2, [Redirect ''/catalog/bookinstances'', Next (CastError [])])"
  proof (intro impI, elim conjE)
    assume a: "\<not> isLength 1 None (trim (toString (body req2 ''bookinstanceid'')))"
      and b: "castObjectId e [] = None"
    from a have "trim (toString (body req2 ''bookinstanceid'')) = []"
      by (rule id_chain_invalid)
    with a b show "bookinstance_delete_post e req2 st2 =
        (st2, [Redirect ''/catalog/bookinstances'', Next (CastError [])])"
      by (simp add: eq)
  qed
  have c6: "isLength 1 None (trim (toString (body req3 ''bookinstanceid''))) \<and>
    castObjectId e (trim (toString (body req3 ''bookinstanceid''))) = None \<longrightarrow>
      bookinstance_delete_post e req3 st3 =
        (st3, [Next (CastError (trim (toString (body req3 ''bookinstanceid''))))])"
    by (simp add: eq)
  show ?thesis
    by (intro conjI; (rule eq | rule c2 | rule c3 | rule c4 | rule c5 | rule c6))
qed

theorem bookinstance_delete_outcomes_witness:
  "bookinstance_delete_post example_env
     (form id_c1 [(''bookinstanceid'', ''0000000000000000000000c2 '')]) example_store =
     (example_store\<lparr>bookinstances :=
        [\<lparr>bookinstance_id = id_c1, book = Some id_b1, imprint = ''Abe Press'',
          status = ''Available'', due_back = Null\<rparr>]\<rparr>,
      [Redirect ''/catalog/bookinstances'']) \<and>
   findOne (\<lambda>d. bookinstance_id d = id_c2)
     (bookinstances (fst (bookinstance_delete_post example_env
        (form id_c1 [(''bookinstanceid'', ''0000000000000000000000c2 '')]) example_store))) = None \<and>
   bookinstance_delete_post example_env (form id_c1 [(''bookinstanceid'', ''  '')]) example_store =
     (example_store, [Redirect ''/catalog/bookinstances'', Next (CastError [])]) \<and>
   bookinstance_delete_post example_env (form id_c1 [(''bookinstanceid'', ''abc'')]) example_store =
     (example_store, [Next (CastError ''abc'')])"
proof -
  let ?r1 = "form id_c1 [(''bookinstanceid'', ''0000000000000000000000c2 '')]"
  let ?r2 = "form id_c1 [(''bookinstanceid'', ''  '')]"
  let ?r3 = "form id_c1 [(''bookinstanceid'', ''abc'')]"
  have t1: "trim (toString (body ?r1 ''bookinstanceid'')) = id_c2"
    by (simp add: form_def chain_defs)
  have t2: "trim (toString (body ?r2 ''bookinstanceid'')) = []"
    by (simp add: form_def chain_defs)
  have t3: "trim (toString (body ?r3 ''bookinstanceid'')) = ''abc''"
    by (simp add: form_def chain_defs)
  have h1: "isLength 1 None id_c2 \<and> castObjectId example_env id_c2 = Some id_c2 \<and>
      distinct (map bookinstance_id (bookinstances example_store))"
    by (simp add: isLength_def example_defs example_store_def)
  have h2: "\<not> isLength 1 None [] \<and> castObjectId example_env [] = None"
    by (simp add: isLength_def example_defs)
  have h3: "isLength 1 None ''abc'' \<and> castObjectId example_env ''abc'' = None"
    by (simp add: isLength_def example_defs)
  have a: "removeOne (\<lambda>d. bookinstance_id d = id_c2) (bookinstances example_store) =
      [\<lparr>bookinstance_id = id_c1, book = Some id_b1, imprint = ''Abe Press'',
          status = ''Available'', due_back = Null\<rparr>]"
    by (simp add: example_store_def)
  note th = bookinstance_delete_outcomes [where e = example_env and ?req1.0 = ?r1
      and ?k1.0 = id_c2 and ?st1.0 = example_store and ?req2.0 = ?r2 and ?st2.0 = example_store
      and ?req3.0 = ?r3 and ?st3.0 = example_store, unfolded t1 t2 t3]
  from th h1 have p1: "bookinstance_delete_post example_env ?r1 example_store =
        (example_store\<lparr>bookinstances :=
               removeOne (\<lambda>d. bookinstance_id d = id_c2) (bookinstances example_store)\<rparr>,
         [Redirect ''/catalog/bookinstances''])"
    by blast
  from th h1 have p2: "findOne (\<lambda>d. bookinstance_id d = id_c2)
        (bookinstances (fst (bookinstance_delete_post example_env ?r1 example_store))) = None"
    by blast
  from th h2 have p3: "bookinstance_delete_post example_env ?r2 example_store =
        (example_store, [Redirect ''/catalog/bookinstances'', Next (CastError [])])"
    by blast
  from th h3 have p4: "bookinstance_delete_post example_env ?r3 example_store =
        (example_store, [Next (CastError ''abc'')])"
    by blast
  from p1 p2 p3 p4 a show ?thesis by simp
qed

section \<open>The check and the target of a deletion\<close>

text \<open>
  Claim C10. In the delete POST of an author (of a book) the dependents are looked up
  under the path parameter and the removal takes the body field: when the path names
  nothing with dependents, the document that the trimmed body field names is removed
  (a body field that does not cast gives the cast error instead). At the example store
  this removes an author with three books and a book with an instance.
\<close>

theorem delete_check_and_target_differ:
  "(allBooksByAuthor e (params_id req) st = Inr [] \<longrightarrow>
      author_delete_post e req st =
        (case castObjectId e (trim (toString (body req ''authorid''))) of
           None \<Rightarrow> (st, [Next (CastError (trim (toString (body req ''authorid''))))])
         | Some k \<Rightarrow>
             (st\<lparr>authors := removeOne (\<lambda>d. author_id d = k) (authors st)\<rparr>,
              [Redirect ''/catalog/authors'']))) \<and>
   (instancesOfBook e (params_id breq) bst = Inr [] \<longrightarrow>
      book_delete_post e breq bst =
        (case castObjectId e (trim (toString (body breq ''bookid''))) of
           None \<Rightarrow> (bst, [Next (CastError (trim (toString (body breq ''bookid''))))])
         | Some k \<Rightarrow>
             (bst\<lparr>books := removeOne (\<lambda>d. book_id d = k) (books bst)\<rparr>,
              [Redirect ''/catalog/books''])))"
  by (auto simp: author_delete_post_def book_delete_post_def id_chain_def findByIdAndRemove_def
      findById_def allBooksByAuthor_def instancesOfBook_def findByRef_def Let_def
      split: option.splits)

theorem delete_check_and_target_differ_witness:
  "allBooksByAuthor example_env id_a1 example_store =
     Inr [(id_b2, ''Zebra'', ''S2''), (id_b1, ''Apple'', ''S1''), (id_b3, ''Mango'', ''S3'')] \<and>
   author_delete_post example_env (form id_a2 [(''authorid'', id_a1)]) example_store =
     (example_store\<lparr>authors :=
        [\<lparr>author_id = id_a2, first_name = ''Ann'', family_name = ''Abe'',
          date_of_birth = Val 0, date_of_death = Null\<rparr>]\<rparr>,
      [Redirect ''/catalog/authors'']) \<and>
   instancesOfBook example_env id_b1 example_store =
     Inr [\<lparr>bookinstance_id = id_c1, book = Some id_b1, imprint = ''Abe Press'',
       status = ''Available'', due_back = Null\<rparr>] \<and>
   book_delete_post example_env (form id_b3 [(''bookid'', id_b1)]) example_store =
     (example_store\<lparr>books :=
        [\<lparr>book_id = id_b2, title = ''Zebra'', author = Some id_a1, summary = ''S2'',
          isbn = ''222'', genre = [id_e1]\<rparr>,
         \<lparr>book_id = id_b3, title = ''Mango'', author = Some id_a1, summary = ''S3'',
          isbn = ''333'', genre = []\<rparr>]\<rparr>,
      [Redirect ''/catalog/books''])"
proof -
  let ?ra = "form id_a2 [(''authorid'', id_a1)]"
  let ?rb = "form id_b3 [(''bookid'', id_b1)]"
  have h1: "allBooksByAuthor example_env (params_id ?ra) example_store = Inr []"
    by (simp add: form_def example_store_def allBooksByAuthor_def findByRef_def example_defs)
  have h2: "instancesOfBook example_env (params_id ?rb) example_store = Inr []"
    by (simp add: form_def example_store_def instancesOfBook_def findByRef_def example_defs)
  have d1: "allBooksByAuthor example_env id_a1 example_store =
     Inr [(id_b2, ''Zebra'', ''S2''), (id_b1, ''Apple'', ''S1''), (id_b3, ''Mango'', ''S3'')]"
    by (simp add: example_store_def allBooksByAuthor_def findByRef_def title_summary_def
        example_defs)
  have d2: "instancesOfBook example_env id_b1 example_store =
     Inr [\<lparr>bookinstance_id = id_c1, book = Some id_b1, imprint = ''Abe Press'',
       status = ''Available'', due_back = Null\<rparr>]"
    by (simp add: example_store_def instancesOfBook_def findByRef_def BookInstance_hydrate_def
        with_default_def example_defs)
  have t1: "trim (toString (body ?ra ''authorid'')) = id_a1"
    by (simp add: form_def chain_defs)
  have t2: "trim (toString (body ?rb ''bookid'')) = id_b1"
    by (simp add: form_def chain_defs)
  have c1: "castObjectId example_env id_a1 = Some id_a1"
    by (simp add: example_defs)
  have c2: "castObjectId example_env id_b1 = Some id_b1"
    by (simp add: example_defs)
  have r1: "removeOne (\<lambda>d. author_id d = id_a1) (authors example_store) =
            [\<lparr>author_id = id_a2, first_name = ''Ann'', family_name = ''Abe'',
              date_of_birth = Val 0, date_of_death = Null\<rparr>]"
    by (simp add: example_store_def)
  have r2: "removeOne (\<lambda>d. book_id d = id_b1) (books example_store) =
            [\<lparr>book_id = id_b2, title = ''Zebra'', author = Some id_a1, summary = ''S2'',
              isbn = ''222'', genre = [id_e1]\<rparr>,
             \<lparr>book_id = id_b3, title = ''Mango'', author = Some id_a1, summary = ''S3'',
              isbn = ''333'', genre = []\<rparr>]"
    by (simp add: example_store_def)
  note th = delete_check_and_target_differ [of example_env ?ra example_store ?rb example_store,
      unfolded t1 t2 c1 c2 option.case r1 r2]
  from th h1 h2 d1 d2 show ?thesis by blast
qed

end
